theory Spec2Isabelle
  imports Main "HOL-Library.Sublist"
begin

section \<open>proj: the project record, its store, its sidecar file and its command runner\<close>

text \<open>
  The development follows the current revision of \<^verbatim>\<open>main.go\<close> (the one with the
  \<^verbatim>\<open>TearDown\<close> column, \<^verbatim>\<open>cliError\<close> and the \<^verbatim>\<open>stop\<close> command). Every Go function is a HOL
  function of the same name. What the Go code reads from its surroundings (the SQL driver,
  the YAML package, the clock, the file system, the host's \<^verbatim>\<open>sh\<close>) is a field of the
  record \<open>env\<close> or of the state \<open>world\<close>; what it writes (rows, files, coloured lines,
  spawned processes) is a field of \<open>world\<close>.
\<close>

subsection \<open>Data\<close>

text \<open>\<^verbatim>\<open>type Project struct\<close>.\<close>

record Project =
  ID :: string
  Name :: string
  Path :: string
  Command :: string
  TearDown :: string

text \<open>
  One row of the table \<^verbatim>\<open>projects(Id, Name, Path, Command, TearDown, CreatedAt)\<close>. The
  table is the list of its rows in rowid order: a scan without \<^verbatim>\<open>ORDER BY\<close> visits them
  in that order, and a row inserted by \<^verbatim>\<open>INSERT OR REPLACE\<close> receives a fresh, largest
  rowid.
\<close>

type_synonym timestamp = nat

record row =
  Id :: string
  NameCol :: string
  PathCol :: string
  CommandCol :: string
  TearDownCol :: string
  CreatedAt :: timestamp

type_synonym table = "row list"

text \<open>
  The lines written through the \<^verbatim>\<open>color\<close> package: the colour and the text, which the
  package ends with a newline when the format has none.
\<close>

datatype colour = Red | Green | Blue | Magenta

type_synonym line = "colour \<times> string"

text \<open>
  The two ways the process dies: \<^verbatim>\<open>os.Exit\<close> after a coloured line, and a Go panic
  (an uncoloured \<^verbatim>\<open>panic: ...\<close> report of the runtime, exit status 2).
\<close>

datatype halt =
  OsExit (last_line: line) (code: nat)
| GoPanic (panic_value: string)

fun exit_status :: "halt \<Rightarrow> nat" where
  "exit_status (OsExit l n) = n"
| "exit_status (GoPanic v) = 2"

fun coloured_message :: "halt \<Rightarrow> bool" where
  "coloured_message (OsExit l n) = True"
| "coloured_message (GoPanic v) = False"

definition nl :: string where
  "nl = [CHR 0x0A]"

text \<open>\<^verbatim>\<open>func cliError(err error)\<close>: a red line, then \<^verbatim>\<open>os.Exit(1)\<close>.\<close>

definition cliError :: "string \<Rightarrow> halt" where
  "cliError err = OsExit (Red, ''==> Error: '' @ err @ nl) 1"

text \<open>The panic of the Go runtime when a method reads through a nil pointer.\<close>

definition nil_dereference :: halt where
  "nil_dereference = GoPanic ''runtime error: invalid memory address or nil pointer dereference''"

text \<open>The outcome of \<^verbatim>\<open>sql.Open\<close>, which \<^verbatim>\<open>InitDB\<close> tests twice.\<close>

datatype opened = OpenError | OpenNil | Opened

text \<open>A completed subprocess: its exit status and what it wrote.\<close>

record proc =
  exit_code :: nat
  stdout :: string
  stderr :: string

text \<open>
  The surroundings of one invocation. The driver's failures are the errors the Go code
  tests (or forgets to test); \<open>sh\<close> is the host: working directory and argument vector
  to completed process.
\<close>

record env =
  open_result :: opened
  table_err :: bool
  prepare_err :: bool
  exec_err :: bool
  query_err :: bool
  now :: timestamp
  yaml_Marshal :: "Project \<Rightarrow> string + string"
  yaml_Unmarshal :: "string \<Rightarrow> string + Project"
  sh :: "string \<Rightarrow> string list \<Rightarrow> proc"
  cwd :: string

text \<open>
  The files, by the name the program hands to the operating system; \<open>write_err\<close> gives
  the names that cannot be written, with the error of the failed write.
\<close>

record FS =
  files :: "string \<rightharpoonup> string"
  write_err :: "string \<rightharpoonup> string"

record world =
  db :: table
  disk :: FS
  printed :: "line list"
  spawned :: "(string \<times> string list) list"

subsection \<open>The SQL statements\<close>

text \<open>
  \<^verbatim>\<open>add\<close>: \<^verbatim>\<open>INSERT OR REPLACE INTO projects(Id, Name, Path, Command, TearDown, CreatedAt)
  values(?, ?, ?, ?, ?, CURRENT_TIMESTAMP)\<close>. \<^verbatim>\<open>Id\<close> is the primary key: the row holding the
  same \<^verbatim>\<open>Id\<close> is deleted and the new row inserted. The result is \<open>None\<close> when the number
  of arguments is not the number of placeholders.
\<close>

fun add_stmt :: "timestamp \<Rightarrow> string list \<Rightarrow> table \<Rightarrow> table option" where
  "add_stmt t [a1, a2, a3, a4, a5] rows =
     Some (filter (\<lambda>r. Id r \<noteq> a1) rows @
       [\<lparr>Id = a1, NameCol = a2, PathCol = a3, CommandCol = a4, TearDownCol = a5,
         CreatedAt = t\<rparr>])"
| "add_stmt t args rows = None"

text \<open>
  \<^verbatim>\<open>update\<close>: \<^verbatim>\<open>UPDATE projects SET Name = ?, Command = ?, Path = ?, TearDown = ?
  WHERE Id = ?\<close>.
\<close>

fun update_stmt :: "string list \<Rightarrow> table \<Rightarrow> table option" where
  "update_stmt [a1, a2, a3, a4, a5] rows =
     Some (map (\<lambda>r. if Id r = a5
                     then r\<lparr>NameCol := a1, CommandCol := a2, PathCol := a3, TearDownCol := a4\<rparr>
                     else r) rows)"
| "update_stmt args rows = None"

text \<open>
  \<^verbatim>\<open>find\<close>: \<^verbatim>\<open>SELECT Id, Name, Command, Path, TearDown FROM projects WHERE Name = ?\<close>,
  read with \<^verbatim>\<open>QueryRow\<close>: the columns of the first matching row, in the order of the
  \<^verbatim>\<open>SELECT\<close>.
\<close>

definition find_stmt :: "string \<Rightarrow> table \<Rightarrow> string list option" where
  "find_stmt a1 rows =
     map_option (\<lambda>r. [Id r, NameCol r, CommandCol r, PathCol r, TearDownCol r])
       (find (\<lambda>r. NameCol r = a1) rows)"

subsection \<open>The record store\<close>

definition InitDB :: "env \<Rightarrow> table \<Rightarrow> halt + table" where
  "InitDB e rows =
     (if open_result e = OpenError then Inl (cliError ''Could not create database.'')
      else if open_result e = OpenNil then Inl (cliError ''DB Not found!'')
      else Inr rows)"

definition CreateTable :: "env \<Rightarrow> table \<Rightarrow> halt + table" where
  "CreateTable e rows =
     (if table_err e then Inl (cliError ''Failed to create database table.'') else Inr rows)"

text \<open>
  \<^verbatim>\<open>SaveProject\<close> does not test the error of \<^verbatim>\<open>Prepare\<close>: with a nil statement,
  \<^verbatim>\<open>stmt.Exec\<close> reads through the nil pointer.
\<close>

definition SaveProject :: "env \<Rightarrow> Project \<Rightarrow> table \<Rightarrow> halt + table" where
  "SaveProject e project rows =
     (if prepare_err e then Inl nil_dereference
      else if exec_err e then Inl (cliError ''Failed to save project.'')
      else case add_stmt (now e)
                  [ID project, Name project, Path project, Command project, TearDown project]
                  rows of
             None \<Rightarrow> Inl (cliError ''Failed to save project.'')
           | Some rows' \<Rightarrow> Inr rows')"

definition UpdateProject :: "env \<Rightarrow> Project \<Rightarrow> table \<Rightarrow> halt + table" where
  "UpdateProject e project rows =
     (if prepare_err e then Inl (cliError ''Failed to update project.'')
      else if exec_err e then Inl (cliError ''Failed to update project.'')
      else case update_stmt
                  [Name project, Command project, Path project, TearDown project, ID project]
                  rows of
             None \<Rightarrow> Inl (cliError ''Failed to update project.'')
           | Some rows' \<Rightarrow> Inr rows')"

text \<open>
  \<^verbatim>\<open>LoadProject\<close>: \<^verbatim>\<open>Scan\<close> fails when the query failed, when no row matched
  (\<^verbatim>\<open>sql.ErrNoRows\<close>) and when the columns do not fit the destinations; every failure ends
  in the same \<^verbatim>\<open>cliError\<close>.
\<close>

fun Scan :: "string list \<Rightarrow> Project option" where
  "Scan [c1, c2, c3, c4, c5] =
     Some \<lparr>ID = c1, Name = c2, Path = c4, Command = c3, TearDown = c5\<rparr>"
| "Scan cols = None"

definition LoadProject :: "env \<Rightarrow> string \<Rightarrow> table \<Rightarrow> halt + Project" where
  "LoadProject e name rows =
     (if query_err e then Inl (cliError ''Failed to load project.'')
      else case find_stmt name rows of
             None \<Rightarrow> Inl (cliError ''Failed to load project.'')
           | Some cols \<Rightarrow>
               (case Scan cols of
                  None \<Rightarrow> Inl (cliError ''Failed to load project.'')
                | Some project \<Rightarrow> Inr project))"

subsection \<open>The sidecar file\<close>

definition WriteFile :: "string \<Rightarrow> string \<Rightarrow> FS \<Rightarrow> string + FS" where
  "WriteFile name data fs =
     (case write_err fs name of
        Some err \<Rightarrow> Inl err
      | None \<Rightarrow> Inr (fs\<lparr>files := (files fs)(name \<mapsto> data)\<rparr>))"

definition ReadFile :: "string \<Rightarrow> FS \<Rightarrow> string + string" where
  "ReadFile name fs =
     (case files fs name of
        None \<Rightarrow> Inl (''open '' @ name @ '': no such file or directory'')
      | Some data \<Rightarrow> Inr data)"

text \<open>\<^verbatim>\<open>CreateProjectFile\<close> and \<^verbatim>\<open>CommitChanges\<close> call \<^verbatim>\<open>panic(err)\<close> on every error.\<close>

definition CreateProjectFile :: "env \<Rightarrow> Project \<Rightarrow> FS \<Rightarrow> halt + FS" where
  "CreateProjectFile e project fs =
     (case yaml_Marshal e project of
        Inl err \<Rightarrow> Inl (GoPanic err)
      | Inr data \<Rightarrow>
          (case WriteFile (Path project @ ''/proj.yml'') data fs of
             Inl err \<Rightarrow> Inl (GoPanic err)
           | Inr fs' \<Rightarrow> Inr fs'))"

definition CommitChanges :: "env \<Rightarrow> world \<Rightarrow> halt option \<times> world" where
  "CommitChanges e w =
     (case ReadFile ''./proj.yml'' (disk w) of
        Inl err \<Rightarrow> (Some (GoPanic err), w)
      | Inr data \<Rightarrow>
          (case yaml_Unmarshal e data of
             Inl err \<Rightarrow> (Some (GoPanic err), w)
           | Inr project \<Rightarrow>
               (case UpdateProject e project (db w) of
                  Inl h \<Rightarrow> (Some h, w)
                | Inr rows \<Rightarrow> (None, w\<lparr>db := rows\<rparr>))))"

definition InitProject :: "env \<Rightarrow> Project \<Rightarrow> world \<Rightarrow> halt option \<times> world" where
  "InitProject e project w =
     (case CreateProjectFile e project (disk w) of
        Inl h \<Rightarrow> (Some h, w)
      | Inr fs \<Rightarrow>
          (case SaveProject e project (db w) of
             Inl h \<Rightarrow> (Some h, w\<lparr>disk := fs\<rparr>)
           | Inr rows \<Rightarrow> (None, w\<lparr>disk := fs, db := rows\<rparr>)))"

subsection \<open>The command runner\<close>

text \<open>\<^verbatim>\<open>strings.Join\<close>.\<close>

fun Join :: "string list \<Rightarrow> string \<Rightarrow> string" where
  "Join [] sep = []"
| "Join [a] sep = a"
| "Join (a # b # elems) sep = a @ sep @ Join (b # elems) sep"

text \<open>The decimal numeral of an exit status, as \<^verbatim>\<open>ExitError.Error\<close> prints it.\<close>

definition digit :: "nat \<Rightarrow> char" where
  "digit d = ''0123456789'' ! d"

function decimal :: "nat \<Rightarrow> string" where
  "decimal n = (if n < 10 then [digit n] else decimal (n div 10) @ [digit (n mod 10)])"
  by pat_completeness auto
termination
  by (relation "measure id") auto

declare decimal.simps [simp del]

text \<open>
  \<^verbatim>\<open>exec.Cmd\<close>, with the fields the code and \<^verbatim>\<open>Run\<close> read: \<open>Stdout\<close> and \<open>Stderr\<close>
  say whether a writer is attached. \<^verbatim>\<open>exec.Command\<close> fills \<open>Args\<close> and leaves the rest
  at the zero value.
\<close>

record Cmd =
  Args :: "string list"
  Dir :: string
  Stdout :: bool
  Stderr :: bool

definition exec_Command :: "string \<Rightarrow> string list \<Rightarrow> Cmd" where
  "exec_Command name arg = \<lparr>Args = name # arg, Dir = [], Stdout = False, Stderr = False\<rparr>"

text \<open>
  \<^verbatim>\<open>cmd.Run()\<close>: the process starts in \<open>Dir\<close>, or in the directory of the calling process
  when \<open>Dir\<close> is empty; a stream without a writer goes to the null device; the error is
  that of a non-zero exit status, \<^verbatim>\<open>exit status N\<close>. The result is the error and the
  contents of the buffer attached to \<open>Stdout\<close>. A shell that cannot be started or that
  is killed by a signal, and what the command does to the files and to the store, are
  outside the model.
\<close>

definition Run :: "env \<Rightarrow> Cmd \<Rightarrow> world \<Rightarrow> (string option \<times> string) \<times> world" where
  "Run e cmd w =
     (let dir = (if Dir cmd = [] then cwd e else Dir cmd);
          p = sh e dir (Args cmd)
      in ((if exit_code p = 0 then None else Some (''exit status '' @ decimal (exit_code p)),
           if Stdout cmd then stdout p else []),
          w\<lparr>spawned := spawned w @ [(dir, Args cmd)]\<rparr>))"

definition printCommand :: "Cmd \<Rightarrow> line" where
  "printCommand cmd = (Magenta, ''==> Executing: '' @ Join (Args cmd) '' '' @ nl)"

definition printOutput :: "string \<Rightarrow> line list" where
  "printOutput outs = (if length outs > 0 then [(Blue, ''==> Output: '' @ outs @ nl)] else [])"

definition StartProject :: "env \<Rightarrow> string \<Rightarrow> world \<Rightarrow> halt option \<times> world" where
  "StartProject e name w =
     (case LoadProject e name (db w) of
        Inl h \<Rightarrow> (Some h, w)
      | Inr project \<Rightarrow>
          (let cmd = (exec_Command ''sh'' [''-c'', Command project, Path project])
                       \<lparr>Stdout := True\<rparr>;
               w1 = w\<lparr>printed := printed w @ [printCommand cmd]\<rparr>;
               ((err, cmdOutput), w2) = Run e cmd w1
           in case err of
                Some msg \<Rightarrow> (Some (cliError msg), w2)
              | None \<Rightarrow> (None, w2\<lparr>printed := printed w2 @ printOutput cmdOutput\<rparr>)))"

definition StopProject :: "env \<Rightarrow> string \<Rightarrow> world \<Rightarrow> halt option \<times> world" where
  "StopProject e name w =
     (case LoadProject e name (db w) of
        Inl h \<Rightarrow> (Some h, w)
      | Inr project \<Rightarrow>
          (let cmd = (exec_Command ''sh'' [''-c'', TearDown project, Path project])
                       \<lparr>Stdout := True\<rparr>;
               w1 = w\<lparr>printed := printed w @ [printCommand cmd]\<rparr>;
               ((err, cmdOutput), w2) = Run e cmd w1
           in case err of
                Some msg \<Rightarrow> (Some (cliError msg), w2)
              | None \<Rightarrow> (None, w2\<lparr>printed := printed w2 @ printOutput cmdOutput\<rparr>)))"

text \<open>
  How \<^verbatim>\<open>sh\<close> reads the argument vector \<^verbatim>\<open>sh -c [options] command_string [command_name
  [argument...]]\<close>. After \<^verbatim>\<open>-c\<close>, an argument made of \<^verbatim>\<open>-\<close> or \<^verbatim>\<open>+\<close> and option letters is
  an option, and \<^verbatim>\<open>--\<close> ends the options; the first operand is the command string, the
  next one is \<^verbatim>\<open>$0\<close> (the name the shell was called by when there is none), the others
  are the positional parameters. Without a command string the shell reports a usage
  error and runs nothing. The letters are those of POSIX that \<^verbatim>\<open>dash\<close> and \<^verbatim>\<open>bash\<close> both
  take; for any other argument that begins with \<^verbatim>\<open>-\<close> or \<^verbatim>\<open>+\<close> the reading depends on the
  shell and is left open.
\<close>

datatype sh_reading =
  Executes (flags: "string list") (command_string: string) (dollar0: string)
    (positional: "string list")
| Usage
| Depends "string list"

definition option_letters :: string where
  "option_letters = ''abCefmnuvx''"

definition option_like :: "string \<Rightarrow> bool" where
  "option_like a = (case a of [] \<Rightarrow> False | s # ls \<Rightarrow> s = CHR ''-'' \<or> s = CHR ''+'')"

definition is_flags :: "string \<Rightarrow> bool" where
  "is_flags a =
     (case a of
        [] \<Rightarrow> False
      | s # ls \<Rightarrow> (s = CHR ''-'' \<or> s = CHR ''+'') \<and> ls \<noteq> [] \<and>
          list_all (\<lambda>l. l \<in> set option_letters) ls)"

fun sh_operands :: "string \<Rightarrow> string list \<Rightarrow> string list \<Rightarrow> sh_reading" where
  "sh_operands a0 fl [] = Usage"
| "sh_operands a0 fl [cs] = Executes fl cs a0 []"
| "sh_operands a0 fl (cs # name # params) = Executes fl cs name params"

fun sh_options :: "string list \<Rightarrow> string \<Rightarrow> string list \<Rightarrow> string list \<Rightarrow> sh_reading" where
  "sh_options argv a0 fl [] = Usage"
| "sh_options argv a0 fl (a # rest) =
     (if a = ''--'' then sh_operands a0 fl rest
      else if is_flags a then sh_options argv a0 (fl @ [a]) rest
      else if option_like a then Depends argv
      else sh_operands a0 fl (a # rest))"

fun sh_c :: "string list \<Rightarrow> sh_reading" where
  "sh_c (a0 # a1 # rest) =
     (if a1 = ''-c'' then sh_options (a0 # a1 # rest) a0 [] rest else Depends (a0 # a1 # rest))"
| "sh_c argv = Depends argv"

text \<open>
  A host whose \<^verbatim>\<open>sh\<close> acts on the directory it is started in and on its reading of the
  arguments.
\<close>

definition sh_host :: "(string \<Rightarrow> sh_reading \<Rightarrow> proc) \<Rightarrow> string \<Rightarrow> string list \<Rightarrow> proc" where
  "sh_host run d argv = run d (sh_c argv)"

subsection \<open>The four commands\<close>

datatype command =
  is_Init: Init string string string string
| Commit
| Start string
| Stop string

definition main :: "env \<Rightarrow> command \<Rightarrow> world \<Rightarrow> halt option \<times> world" where
  "main e c w =
     (case InitDB e (db w) of
        Inl h \<Rightarrow> (Some h, w)
      | Inr rows \<Rightarrow>
          (case CreateTable e rows of
             Inl h \<Rightarrow> (Some h, w)
           | Inr rows' \<Rightarrow>
               (case c of
                  Init name path command teardown \<Rightarrow>
                    InitProject e
                      \<lparr>ID = ''123'', Name = name, Path = path, Command = command,
                        TearDown = teardown\<rparr>
                      (w\<lparr>db := rows'\<rparr>)
                | Commit \<Rightarrow>
                    CommitChanges e
                      (w\<lparr>db := rows', printed := printed w @ [(Green, ''Updating...'' @ nl)]\<rparr>)
                | Start name \<Rightarrow>
                    StartProject e name
                      (w\<lparr>db := rows', printed := printed w @ [(Green, ''Starting '' @ name @ nl)]\<rparr>)
                | Stop name \<Rightarrow>
                    StopProject e name
                      (w\<lparr>db := rows', printed := printed w @ [(Blue, ''Stopping: '' @ name @ nl)]\<rparr>))))"

text \<open>
  The stores the program builds: a new database holds no row, and every invocation, in
  any surroundings, with any files, leaves the next store.
\<close>

inductive reachable :: "table \<Rightarrow> bool" where
  fresh: "reachable []"
| invocation: "reachable (db w) \<Longrightarrow> main e c w = (h, w') \<Longrightarrow> reachable (db w')"

subsection \<open>Surroundings and states for the examples\<close>

text \<open>
  Surroundings in which nothing fails: the driver answers, the clock reads 0, the YAML
  package writes a one-line document, \<^verbatim>\<open>sh\<close> exits with status 0 and no output.
\<close>

definition calm :: env where
  "calm = \<lparr>open_result = Opened, table_err = False, prepare_err = False, exec_err = False,
            query_err = False, now = 0,
            yaml_Marshal = (\<lambda>p. Inr (''name: '' @ Name p)),
            yaml_Unmarshal = (\<lambda>s. Inl ''yaml: unmarshal errors''),
            sh = (\<lambda>d a. \<lparr>exit_code = 0, stdout = [], stderr = []\<rparr>),
            cwd = ''/home/dev''\<rparr>"

text \<open>A machine with no file, where every name can be written, and nothing printed yet.\<close>

definition blank :: "table \<Rightarrow> world" where
  "blank rows = \<lparr>db = rows, disk = \<lparr>files = Map.empty, write_err = Map.empty\<rparr>,
                  printed = [], spawned = []\<rparr>"

section \<open>Properties\<close>

subsection \<open>What the store operations do to the table\<close>

lemma SaveProject_Inr:
  "SaveProject e p rows = Inr rows' \<longleftrightarrow>
     \<not> prepare_err e \<and> \<not> exec_err e \<and>
     rows' = filter (\<lambda>r. Id r \<noteq> ID p) rows @
       [\<lparr>Id = ID p, NameCol = Name p, PathCol = Path p, CommandCol = Command p,
         TearDownCol = TearDown p, CreatedAt = now e\<rparr>]"
  by (auto simp: SaveProject_def nil_dereference_def)

lemma UpdateProject_Inr:
  "UpdateProject e p rows = Inr rows' \<longleftrightarrow>
     \<not> prepare_err e \<and> \<not> exec_err e \<and>
     rows' = map (\<lambda>r. if Id r = ID p
                       then r\<lparr>NameCol := Name p, CommandCol := Command p, PathCol := Path p,
                              TearDownCol := TearDown p\<rparr>
                       else r) rows"
  by (auto simp: UpdateProject_def)

lemma find_first_row:
  "find (\<lambda>r. NameCol r = name) rows = None \<longleftrightarrow> name \<notin> NameCol ` set rows"
  by (auto simp: find_None_iff)

lemma length_filter_key:
  "distinct (map Id rows) \<Longrightarrow> length (filter (\<lambda>r. Id r = k) rows) \<le> 1"
  by (induction rows) (auto simp: filter_empty_conv image_iff)

lemma length_filter_other:
  "distinct (map Id rows) \<Longrightarrow> k \<in> Id ` set rows \<Longrightarrow>
   Suc (length (filter (\<lambda>r. Id r \<noteq> k) rows)) = length rows"
proof (induction rows)
  case Nil
  then show ?case by simp
next
  case (Cons r rows)
  show ?case
  proof (cases "Id r = k")
    case True
    with Cons.prems have "k \<notin> Id ` set rows" by auto
    then have "filter (\<lambda>r. Id r \<noteq> k) rows = rows"
      by (auto simp: filter_id_conv)
    with True show ?thesis by simp
  next
    case False
    with Cons show ?thesis by auto
  qed
qed

subsection \<open>Lookup of a name that is not stored\<close>

text \<open>
  C3. When no row of the store carries the name, \<^verbatim>\<open>LoadProject\<close> ends in the fatal error
  \<^verbatim>\<open>Failed to load project.\<close> and returns no record at all, so neither the zero-value
  record nor any other; \<^verbatim>\<open>start\<close> and \<^verbatim>\<open>stop\<close> end in that error before anything is printed
  or run.
\<close>

theorem LoadProject_absent:
  assumes "name \<notin> NameCol ` set (db w)"
  shows "LoadProject e name (db w) = Inl (cliError ''Failed to load project.'') \<and>
         (\<forall>project. LoadProject e name (db w) \<noteq> Inr project) \<and>
         StartProject e name w = (Some (cliError ''Failed to load project.''), w) \<and>
         StopProject e name w = (Some (cliError ''Failed to load project.''), w)"
proof -
  have "find (\<lambda>r. NameCol r = name) (db w) = None"
    using assms by (simp add: find_first_row)
  then have load: "LoadProject e name (db w) = Inl (cliError ''Failed to load project.'')"
    by (simp add: LoadProject_def find_stmt_def)
  then show ?thesis
    by (simp add: StartProject_def StopProject_def)
qed

theorem LoadProject_absent_witness:
  "''ghost'' \<notin> NameCol ` set (db (blank [])) \<and>
   LoadProject calm ''ghost'' (db (blank [])) =
     Inl (OsExit (Red, ''==> Error: Failed to load project.'' @ [CHR 0x0A]) 1) \<and>
   StartProject calm ''ghost'' (blank []) =
     (Some (OsExit (Red, ''==> Error: Failed to load project.'' @ [CHR 0x0A]) 1), blank [])"
  using LoadProject_absent [of "''ghost''" "blank []" calm]
  by (simp add: blank_def cliError_def nl_def)

subsection \<open>The unchecked error of \<^verbatim>\<open>Prepare\<close> in \<^verbatim>\<open>SaveProject\<close>\<close>

text \<open>
  C10. \<^verbatim>\<open>SaveProject\<close> never tests the error returned by preparing the insert statement:
  when the preparation fails, the call ends in the runtime panic of a nil pointer
  dereference, not in any \<^verbatim>\<open>cliError\<close>, and \<^verbatim>\<open>init\<close> dies of that panic after the sidecar
  file has been written.
\<close>

theorem SaveProject_prepare_unchecked:
  assumes "prepare_err e"
  shows "SaveProject e project rows =
           Inl (GoPanic ''runtime error: invalid memory address or nil pointer dereference'') \<and>
         (\<forall>msg. SaveProject e project rows \<noteq> Inl (cliError msg)) \<and>
         (\<forall>fs. CreateProjectFile e project (disk w) = Inr fs \<longrightarrow>
            InitProject e project w =
              (Some (GoPanic ''runtime error: invalid memory address or nil pointer dereference''),
               w\<lparr>disk := fs\<rparr>))"
  using assms by (simp add: SaveProject_def InitProject_def nil_dereference_def cliError_def)

theorem SaveProject_prepare_unchecked_witness:
  "prepare_err (calm\<lparr>prepare_err := True\<rparr>) \<and>
   SaveProject (calm\<lparr>prepare_err := True\<rparr>)
     \<lparr>ID = ''123'', Name = ''a'', Path = ''/a'', Command = ''make'', TearDown = []\<rparr> [] =
     Inl (GoPanic ''runtime error: invalid memory address or nil pointer dereference'') \<and>
   exit_status (GoPanic ''runtime error: invalid memory address or nil pointer dereference'') = 2"
  using SaveProject_prepare_unchecked [of "calm\<lparr>prepare_err := True\<rparr>"
      "\<lparr>ID = ''123'', Name = ''a'', Path = ''/a'', Command = ''make'', TearDown = []\<rparr>"
      "[]" "blank []"]
  by (simp add: calm_def)

subsection \<open>The upsert\<close>

text \<open>
  C2. When the driver does not fail, \<^verbatim>\<open>SaveProject\<close> returns without any error and leaves
  exactly one row with the record's id, the record itself, every row with another id
  being kept as it was: a row that had the id is overwritten. No test on the name is
  made: a stored row with the same name and another id stays, next to the new row of the
  same name, and the store grows by one row when the id was not stored.
\<close>

theorem SaveProject_upsert:
  assumes "\<not> prepare_err e" and "\<not> exec_err e"
  shows "\<exists>rows' new.
           new = \<lparr>Id = ID p, NameCol = Name p, PathCol = Path p, CommandCol = Command p,
                  TearDownCol = TearDown p, CreatedAt = now e\<rparr> \<and>
           SaveProject e p rows = Inr rows' \<and>
           filter (\<lambda>r. Id r = ID p) rows' = [new] \<and>
           filter (\<lambda>r. Id r \<noteq> ID p) rows' = filter (\<lambda>r. Id r \<noteq> ID p) rows \<and>
           (distinct (map Id rows) \<longrightarrow> distinct (map Id rows')) \<and>
           (distinct (map Id rows) \<longrightarrow> ID p \<in> Id ` set rows \<longrightarrow>
              length rows' = length rows) \<and>
           (ID p \<notin> Id ` set rows \<longrightarrow> rows' = rows @ [new]) \<and>
           (\<forall>r\<in>set rows. NameCol r = Name p \<and> Id r \<noteq> ID p \<longrightarrow>
              r \<in> set rows' \<and> new \<in> set rows' \<and> r \<noteq> new \<and> NameCol new = NameCol r)"
proof -
  define new where "new = \<lparr>Id = ID p, NameCol = Name p, PathCol = Path p,
    CommandCol = Command p, TearDownCol = TearDown p, CreatedAt = now e\<rparr>"
  define rows' where "rows' = filter (\<lambda>r. Id r \<noteq> ID p) rows @ [new]"
  have id_new: "Id new = ID p" and name_new: "NameCol new = Name p"
    by (simp_all add: new_def)
  have save: "SaveProject e p rows = Inr rows'"
    using assms by (simp add: SaveProject_Inr rows'_def new_def)
  have same: "filter (\<lambda>r. Id r = ID p) rows' = [new]"
    by (simp add: rows'_def id_new filter_empty_conv)
  have other: "filter (\<lambda>r. Id r \<noteq> ID p) rows' = filter (\<lambda>r. Id r \<noteq> ID p) rows"
    by (simp add: rows'_def id_new)
  have dist: "distinct (map Id rows')" if "distinct (map Id rows)"
    using that by (auto simp: rows'_def id_new distinct_map_filter)
  have len: "length rows' = length rows" if "distinct (map Id rows)" "ID p \<in> Id ` set rows"
    using length_filter_other [OF that] by (simp add: rows'_def)
  have fresh: "rows' = rows @ [new]" if "ID p \<notin> Id ` set rows"
  proof -
    from that have "filter (\<lambda>r. Id r \<noteq> ID p) rows = rows"
      by (force simp: filter_id_conv)
    then show ?thesis by (simp add: rows'_def)
  qed
  have dup: "r \<in> set rows' \<and> new \<in> set rows' \<and> r \<noteq> new \<and> NameCol new = NameCol r"
    if "r \<in> set rows" "NameCol r = Name p \<and> Id r \<noteq> ID p" for r
    using that id_new by (auto simp: rows'_def name_new)
  from save same other dist len fresh dup show ?thesis
    unfolding new_def [symmetric] by blast
qed

theorem SaveProject_upsert_witness:
  "\<not> prepare_err calm \<and> \<not> exec_err calm \<and>
   SaveProject calm
     \<lparr>ID = ''7'', Name = ''a'', Path = ''/b'', Command = ''run'', TearDown = ''halt''\<rparr>
     [\<lparr>Id = ''123'', NameCol = ''a'', PathCol = ''/a'', CommandCol = ''make'',
       TearDownCol = [], CreatedAt = 5\<rparr>] =
     Inr [\<lparr>Id = ''123'', NameCol = ''a'', PathCol = ''/a'', CommandCol = ''make'',
            TearDownCol = [], CreatedAt = 5\<rparr>,
          \<lparr>Id = ''7'', NameCol = ''a'', PathCol = ''/b'', CommandCol = ''run'',
            TearDownCol = ''halt'', CreatedAt = 0\<rparr>]"
  using SaveProject_upsert [of calm
      "\<lparr>ID = ''7'', Name = ''a'', Path = ''/b'', Command = ''run'', TearDown = ''halt''\<rparr>"
      "[\<lparr>Id = ''123'', NameCol = ''a'', PathCol = ''/a'', CommandCol = ''make'',
         TearDownCol = [], CreatedAt = 5\<rparr>]"]
  by (simp add: calm_def)

subsection \<open>The update of \<^verbatim>\<open>commit\<close>\<close>

text \<open>
  C1, as the specification states it, fails: the row is not found by its name. A record
  whose name was edited in the sidecar file renames the row with its id, though no row
  carries the new name; a record with the name of a stored row and another id changes
  nothing.
\<close>

theorem commit_matches_name_counterexample:
  "''b'' \<notin> NameCol ` set [\<lparr>Id = ''123'', NameCol = ''a'', PathCol = ''/a'', CommandCol = ''make'',
       TearDownCol = [], CreatedAt = 5\<rparr>] \<and>
   UpdateProject calm
     \<lparr>ID = ''123'', Name = ''b'', Path = ''/a'', Command = ''make'', TearDown = []\<rparr>
     [\<lparr>Id = ''123'', NameCol = ''a'', PathCol = ''/a'', CommandCol = ''make'',
       TearDownCol = [], CreatedAt = 5\<rparr>] =
     Inr [\<lparr>Id = ''123'', NameCol = ''b'', PathCol = ''/a'', CommandCol = ''make'',
            TearDownCol = [], CreatedAt = 5\<rparr>] \<and>
   UpdateProject calm
     \<lparr>ID = ''7'', Name = ''a'', Path = ''/new'', Command = ''run'', TearDown = ''halt''\<rparr>
     [\<lparr>Id = ''123'', NameCol = ''a'', PathCol = ''/a'', CommandCol = ''make'',
       TearDownCol = [], CreatedAt = 5\<rparr>] =
     Inr [\<lparr>Id = ''123'', NameCol = ''a'', PathCol = ''/a'', CommandCol = ''make'',
            TearDownCol = [], CreatedAt = 5\<rparr>]"
  by (simp add: UpdateProject_def calm_def)

text \<open>
  C1, amended. For every record parsed from the sidecar file, \<^verbatim>\<open>commit\<close> overwrites the
  Name, Path, Command and TearDown of the rows whose Id equals the record's id, leaves
  their Id and CreatedAt, and leaves every other row as it was; the primary key allows
  at most one such row.
\<close>

theorem CommitChanges_updates_by_id:
  assumes "files (disk w) ''./proj.yml'' = Some data"
    and "yaml_Unmarshal e data = Inr p"
    and "\<not> prepare_err e" and "\<not> exec_err e"
  shows "\<exists>rows'.
           CommitChanges e w = (None, w\<lparr>db := rows'\<rparr>) \<and>
           UpdateProject e p (db w) = Inr rows' \<and>
           length rows' = length (db w) \<and>
           (\<forall>i<length (db w).
              Id (rows' ! i) = Id (db w ! i) \<and>
              CreatedAt (rows' ! i) = CreatedAt (db w ! i) \<and>
              (if Id (db w ! i) = ID p
               then NameCol (rows' ! i) = Name p \<and> PathCol (rows' ! i) = Path p \<and>
                    CommandCol (rows' ! i) = Command p \<and> TearDownCol (rows' ! i) = TearDown p
               else rows' ! i = db w ! i)) \<and>
           (distinct (map Id (db w)) \<longrightarrow>
              length (filter (\<lambda>r. Id r = ID p) (db w)) \<le> 1 \<and> distinct (map Id rows'))"
proof -
  define rows' where "rows' = map (\<lambda>r. if Id r = ID p
      then r\<lparr>NameCol := Name p, CommandCol := Command p, PathCol := Path p,
             TearDownCol := TearDown p\<rparr>
      else r) (db w)"
  have upd: "UpdateProject e p (db w) = Inr rows'"
    using assms(3,4) by (simp add: UpdateProject_Inr rows'_def)
  have commit: "CommitChanges e w = (None, w\<lparr>db := rows'\<rparr>)"
    using assms(1,2) upd by (simp add: CommitChanges_def ReadFile_def)
  have len: "length rows' = length (db w)"
    by (simp add: rows'_def)
  have pointwise: "Id (rows' ! i) = Id (db w ! i) \<and>
      CreatedAt (rows' ! i) = CreatedAt (db w ! i) \<and>
      (if Id (db w ! i) = ID p
       then NameCol (rows' ! i) = Name p \<and> PathCol (rows' ! i) = Path p \<and>
            CommandCol (rows' ! i) = Command p \<and> TearDownCol (rows' ! i) = TearDown p
       else rows' ! i = db w ! i)" if "i < length (db w)" for i
    using that by (simp add: rows'_def)
  have ids: "map Id rows' = map Id (db w)"
    by (simp add: rows'_def)
  have key: "length (filter (\<lambda>r. Id r = ID p) (db w)) \<le> 1 \<and> distinct (map Id rows')"
    if "distinct (map Id (db w))"
    using that length_filter_key [of "db w" "ID p"] by (simp add: ids)
  from commit upd len pointwise key show ?thesis by blast
qed

theorem CommitChanges_updates_by_id_witness:
  "files (disk ((blank [\<lparr>Id = ''123'', NameCol = ''a'', PathCol = ''/a'', CommandCol = ''make'',
       TearDownCol = [], CreatedAt = 5\<rparr>])
     \<lparr>disk := \<lparr>files = [''./proj.yml'' \<mapsto> ''name: b''], write_err = Map.empty\<rparr>\<rparr>))
     ''./proj.yml'' = Some ''name: b'' \<and>
   db (snd (CommitChanges
     (calm\<lparr>yaml_Unmarshal := (\<lambda>s. Inr \<lparr>ID = ''123'', Name = drop 6 s, Path = ''/a'',
        Command = ''make test'', TearDown = ''make clean''\<rparr>)\<rparr>)
     ((blank [\<lparr>Id = ''123'', NameCol = ''a'', PathCol = ''/a'', CommandCol = ''make'',
       TearDownCol = [], CreatedAt = 5\<rparr>])
     \<lparr>disk := \<lparr>files = [''./proj.yml'' \<mapsto> ''name: b''], write_err = Map.empty\<rparr>\<rparr>))) =
   [\<lparr>Id = ''123'', NameCol = ''b'', PathCol = ''/a'', CommandCol = ''make test'',
     TearDownCol = ''make clean'', CreatedAt = 5\<rparr>]"
  using CommitChanges_updates_by_id [of
     "(blank [\<lparr>Id = ''123'', NameCol = ''a'', PathCol = ''/a'', CommandCol = ''make'',
       TearDownCol = [], CreatedAt = 5\<rparr>])
     \<lparr>disk := \<lparr>files = [''./proj.yml'' \<mapsto> ''name: b''], write_err = Map.empty\<rparr>\<rparr>"
     "''name: b''"
     "calm\<lparr>yaml_Unmarshal := (\<lambda>s. Inr \<lparr>ID = ''123'', Name = drop 6 s, Path = ''/a'',
        Command = ''make test'', TearDown = ''make clean''\<rparr>)\<rparr>"
     "\<lparr>ID = ''123'', Name = ''b'', Path = ''/a'', Command = ''make test'',
       TearDown = ''make clean''\<rparr>"]
  by (simp add: calm_def blank_def UpdateProject_def)


subsection \<open>Saving the same record twice\<close>

text \<open>
  C6, as the specification states it, fails on the column \<^verbatim>\<open>CreatedAt\<close>, which every
  \<^verbatim>\<open>INSERT OR REPLACE\<close> sets to \<^verbatim>\<open>CURRENT_TIMESTAMP\<close>: saved at time 1 and again at time 2,
  the row is not the row saved once at time 1.
\<close>

theorem SaveProject_twice_counterexample:
  "SaveProject (calm\<lparr>now := 1\<rparr>)
     \<lparr>ID = ''123'', Name = ''a'', Path = ''/a'', Command = ''make'', TearDown = []\<rparr> [] =
     Inr [\<lparr>Id = ''123'', NameCol = ''a'', PathCol = ''/a'', CommandCol = ''make'',
            TearDownCol = [], CreatedAt = 1\<rparr>] \<and>
   SaveProject (calm\<lparr>now := 2\<rparr>)
     \<lparr>ID = ''123'', Name = ''a'', Path = ''/a'', Command = ''make'', TearDown = []\<rparr>
     [\<lparr>Id = ''123'', NameCol = ''a'', PathCol = ''/a'', CommandCol = ''make'',
       TearDownCol = [], CreatedAt = 1\<rparr>] =
     Inr [\<lparr>Id = ''123'', NameCol = ''a'', PathCol = ''/a'', CommandCol = ''make'',
            TearDownCol = [], CreatedAt = 2\<rparr>] \<and>
   [\<lparr>Id = ''123'', NameCol = ''a'', PathCol = ''/a'', CommandCol = ''make'',
      TearDownCol = [], CreatedAt = 2\<rparr>] \<noteq>
   [\<lparr>Id = ''123'', NameCol = ''a'', PathCol = ''/a'', CommandCol = ''make'',
      TearDownCol = [], CreatedAt = (1::nat)\<rparr>]"
  by (simp add: SaveProject_def calm_def)

text \<open>
  C6, amended. Saving the same record twice leaves the store that saving it once, at
  the time of the second call, leaves. Against the store after the first call, only
  the CreatedAt of the saved row changes, and nothing changes when both calls read the
  same time.
\<close>

theorem SaveProject_twice:
  assumes "SaveProject e1 p rows = Inr rows1" and "SaveProject e2 p rows1 = Inr rows2"
  shows "SaveProject e2 p rows = Inr rows2 \<and>
         rows2 = map (\<lambda>r. if Id r = ID p then r\<lparr>CreatedAt := now e2\<rparr> else r) rows1 \<and>
         (now e1 = now e2 \<longrightarrow> rows2 = rows1)"
proof -
  from assms(1) have r1: "rows1 = filter (\<lambda>r. Id r \<noteq> ID p) rows @
       [\<lparr>Id = ID p, NameCol = Name p, PathCol = Path p, CommandCol = Command p,
         TearDownCol = TearDown p, CreatedAt = now e1\<rparr>]"
    by (simp add: SaveProject_Inr)
  from assms(2) have ok: "\<not> prepare_err e2" "\<not> exec_err e2"
    and r2: "rows2 = filter (\<lambda>r. Id r \<noteq> ID p) rows1 @
       [\<lparr>Id = ID p, NameCol = Name p, PathCol = Path p, CommandCol = Command p,
         TearDownCol = TearDown p, CreatedAt = now e2\<rparr>]"
    by (simp_all add: SaveProject_Inr)
  have flt: "filter (\<lambda>r. Id r \<noteq> ID p) rows1 = filter (\<lambda>r. Id r \<noteq> ID p) rows"
    by (simp add: r1)
  have once: "SaveProject e2 p rows = Inr rows2"
    using ok by (simp add: SaveProject_Inr r2 flt)
  have keep: "map (\<lambda>r. if Id r = ID p then r\<lparr>CreatedAt := now e2\<rparr> else r)
                (filter (\<lambda>r. Id r \<noteq> ID p) rows) = filter (\<lambda>r. Id r \<noteq> ID p) rows"
    by (induction rows) auto
  have stamp: "rows2 = map (\<lambda>r. if Id r = ID p then r\<lparr>CreatedAt := now e2\<rparr> else r) rows1"
    by (simp add: r2 flt) (simp add: r1 keep)
  have same: "rows2 = rows1" if "now e1 = now e2"
    using that by (simp add: r2 flt) (simp add: r1)
  from once stamp same show ?thesis by blast
qed

theorem SaveProject_twice_witness:
  "SaveProject (calm\<lparr>now := 1\<rparr>)
     \<lparr>ID = ''123'', Name = ''a'', Path = ''/a'', Command = ''make'', TearDown = []\<rparr> [] =
     Inr [\<lparr>Id = ''123'', NameCol = ''a'', PathCol = ''/a'', CommandCol = ''make'',
            TearDownCol = [], CreatedAt = 1\<rparr>] \<and>
   SaveProject (calm\<lparr>now := 2\<rparr>)
     \<lparr>ID = ''123'', Name = ''a'', Path = ''/a'', Command = ''make'', TearDown = []\<rparr>
     [\<lparr>Id = ''123'', NameCol = ''a'', PathCol = ''/a'', CommandCol = ''make'',
       TearDownCol = [], CreatedAt = 1\<rparr>] =
     Inr [\<lparr>Id = ''123'', NameCol = ''a'', PathCol = ''/a'', CommandCol = ''make'',
            TearDownCol = [], CreatedAt = 2\<rparr>] \<and>
   SaveProject (calm\<lparr>now := 2\<rparr>)
     \<lparr>ID = ''123'', Name = ''a'', Path = ''/a'', Command = ''make'', TearDown = []\<rparr> [] =
     Inr [\<lparr>Id = ''123'', NameCol = ''a'', PathCol = ''/a'', CommandCol = ''make'',
            TearDownCol = [], CreatedAt = 2\<rparr>]"
proof -
  have one: "SaveProject (calm\<lparr>now := 1\<rparr>)
     \<lparr>ID = ''123'', Name = ''a'', Path = ''/a'', Command = ''make'', TearDown = []\<rparr> [] =
     Inr [\<lparr>Id = ''123'', NameCol = ''a'', PathCol = ''/a'', CommandCol = ''make'',
            TearDownCol = [], CreatedAt = 1\<rparr>]"
    by (simp add: SaveProject_def calm_def)
  have two: "SaveProject (calm\<lparr>now := 2\<rparr>)
     \<lparr>ID = ''123'', Name = ''a'', Path = ''/a'', Command = ''make'', TearDown = []\<rparr>
     [\<lparr>Id = ''123'', NameCol = ''a'', PathCol = ''/a'', CommandCol = ''make'',
       TearDownCol = [], CreatedAt = 1\<rparr>] =
     Inr [\<lparr>Id = ''123'', NameCol = ''a'', PathCol = ''/a'', CommandCol = ''make'',
            TearDownCol = [], CreatedAt = 2\<rparr>]"
    by (simp add: SaveProject_def calm_def)
  from SaveProject_twice [OF one two] one two show ?thesis by simp
qed

subsection \<open>What one invocation does to the store\<close>

lemma StartProject_db: "StartProject e name w = (h, w') \<Longrightarrow> db w' = db w"
  by (auto simp: StartProject_def Run_def Let_def split: sum.splits option.splits)

lemma StopProject_db: "StopProject e name w = (h, w') \<Longrightarrow> db w' = db w"
  by (auto simp: StopProject_def Run_def Let_def split: sum.splits option.splits)

lemma CommitChanges_db:
  "CommitChanges e w = (h, w') \<Longrightarrow> map Id (db w') = map Id (db w)"
  by (auto simp: CommitChanges_def UpdateProject_Inr split: sum.splits)

lemma InitProject_db:
  "InitProject e p w = (h, w') \<Longrightarrow>
   db w' = db w \<and> h \<noteq> None \<or>
   h = None \<and> \<not> prepare_err e \<and> \<not> exec_err e \<and>
   db w' = filter (\<lambda>r. Id r \<noteq> ID p) (db w) @
     [\<lparr>Id = ID p, NameCol = Name p, PathCol = Path p, CommandCol = Command p,
       TearDownCol = TearDown p, CreatedAt = now e\<rparr>]"
  by (auto simp: InitProject_def SaveProject_Inr split: sum.splits)

lemma main_closed:
  assumes "open_result e \<noteq> Opened \<or> table_err e"
  shows "main e c w =
     (Some (cliError (if open_result e = OpenError then ''Could not create database.''
                      else if open_result e = OpenNil then ''DB Not found!''
                      else ''Failed to create database table.'')), w)"
  using assms by (cases "open_result e") (auto simp: main_def InitDB_def CreateTable_def)

lemma main_opened:
  assumes "open_result e = Opened" and "\<not> table_err e"
  shows "main e c w =
     (case c of
        Init name path command teardown \<Rightarrow>
          InitProject e
            \<lparr>ID = ''123'', Name = name, Path = path, Command = command, TearDown = teardown\<rparr> w
      | Commit \<Rightarrow>
          CommitChanges e (w\<lparr>printed := printed w @ [(Green, ''Updating...'' @ nl)]\<rparr>)
      | Start name \<Rightarrow>
          StartProject e name (w\<lparr>printed := printed w @ [(Green, ''Starting '' @ name @ nl)]\<rparr>)
      | Stop name \<Rightarrow>
          StopProject e name (w\<lparr>printed := printed w @ [(Blue, ''Stopping: '' @ name @ nl)]\<rparr>))"
  using assms by (simp add: main_def InitDB_def CreateTable_def split: command.splits)

lemma main_Init_db:
  assumes "main e (Init name path command teardown) w = (None, w')"
  shows "db w' = filter (\<lambda>r. Id r \<noteq> ''123'') (db w) @
     [\<lparr>Id = ''123'', NameCol = name, PathCol = path, CommandCol = command,
       TearDownCol = teardown, CreatedAt = now e\<rparr>]"
proof -
  from assms have "InitProject e
      \<lparr>ID = ''123'', Name = name, Path = path, Command = command, TearDown = teardown\<rparr> w =
      (None, w')"
    by (cases "open_result e = Opened \<and> \<not> table_err e")
       (auto simp: main_opened main_closed)
  from InitProject_db [OF this] show ?thesis by simp
qed

lemma main_ids:
  assumes "main e c w = (h, w')" and "\<forall>r\<in>set (db w). Id r = ''123''"
  shows "\<forall>r\<in>set (db w'). Id r = ''123''"
proof -
  have same: "\<forall>r\<in>set rows'. Id r = ''123''"
    if "map Id rows' = map Id (db w)" for rows'
  proof -
    have "Id ` set rows' = Id ` set (db w)"
      using that by (metis set_map)
    with assms(2) show ?thesis by auto
  qed
  show ?thesis
  proof (cases "open_result e = Opened \<and> \<not> table_err e")
    case False
    with assms(1) have "w' = w"
      by (auto simp: main_closed)
    with assms(2) show ?thesis by simp
  next
    case True
    show ?thesis
    proof (cases c)
      case (Init name path command teardown)
      with assms(1) True have "InitProject e
          \<lparr>ID = ''123'', Name = name, Path = path, Command = command, TearDown = teardown\<rparr> w =
          (h, w')"
        by (simp add: main_opened)
      from InitProject_db [OF this] assms(2) show ?thesis by auto
    next
      case Commit
      with assms(1) True have "CommitChanges e
          (w\<lparr>printed := printed w @ [(Green, ''Updating...'' @ nl)]\<rparr>) = (h, w')"
        by (simp add: main_opened)
      from CommitChanges_db [OF this] show ?thesis by (simp add: same)
    next
      case (Start name)
      with assms(1) True have "StartProject e name
          (w\<lparr>printed := printed w @ [(Green, ''Starting '' @ name @ nl)]\<rparr>) = (h, w')"
        by (simp add: main_opened)
      from StartProject_db [OF this] assms(2) show ?thesis by simp
    next
      case (Stop name)
      with assms(1) True have "StopProject e name
          (w\<lparr>printed := printed w @ [(Blue, ''Stopping: '' @ name @ nl)]\<rparr>) = (h, w')"
        by (simp add: main_opened)
      from StopProject_db [OF this] assms(2) show ?thesis by simp
    qed
  qed
qed

lemma reachable_ids: "reachable rows \<Longrightarrow> \<forall>r\<in>set rows. Id r = ''123''"
  by (induction rule: reachable.induct) (auto dest: main_ids)

lemma filter_all_same_id:
  "\<forall>r\<in>set rows. Id r = k \<Longrightarrow> filter (\<lambda>r. Id r \<noteq> k) rows = []"
  by (simp add: filter_empty_conv)

lemma find_snoc:
  "find P (xs @ [x]) = (case find P xs of None \<Rightarrow> (if P x then Some x else None) | Some y \<Rightarrow> Some y)"
  by (induction xs) auto

lemma main_length:
  assumes "main e c w = (h, w')" and "\<forall>r\<in>set (db w). Id r = ''123''"
    and "length (db w) \<le> 1"
  shows "length (db w') \<le> 1"
proof (cases "open_result e = Opened \<and> \<not> table_err e")
  case False
  with assms(1) have "w' = w"
    by (auto simp: main_closed)
  with assms(3) show ?thesis by simp
next
  case True
  show ?thesis
  proof (cases c)
    case (Init name path command teardown)
    with assms(1) True have "InitProject e
        \<lparr>ID = ''123'', Name = name, Path = path, Command = command, TearDown = teardown\<rparr> w =
        (h, w')"
      by (simp add: main_opened)
    from InitProject_db [OF this] assms(2,3) show ?thesis
      by (auto simp: filter_all_same_id)
  next
    case Commit
    with assms(1) True have "CommitChanges e
        (w\<lparr>printed := printed w @ [(Green, ''Updating...'' @ nl)]\<rparr>) = (h, w')"
      by (simp add: main_opened)
    from CommitChanges_db [OF this] have "map Id (db w') = map Id (db w)"
      by simp
    then have "length (db w') = length (db w)"
      by (rule map_eq_imp_length_eq)
    with assms(3) show ?thesis by simp
  next
    case (Start name)
    with assms(1) True have "StartProject e name
        (w\<lparr>printed := printed w @ [(Green, ''Starting '' @ name @ nl)]\<rparr>) = (h, w')"
      by (simp add: main_opened)
    from StartProject_db [OF this] assms(3) show ?thesis by simp
  next
    case (Stop name)
    with assms(1) True have "StopProject e name
        (w\<lparr>printed := printed w @ [(Blue, ''Stopping: '' @ name @ nl)]\<rparr>) = (h, w')"
      by (simp add: main_opened)
    from StopProject_db [OF this] assms(3) show ?thesis by simp
  qed
qed

lemma reachable_single: "reachable rows \<Longrightarrow> length rows \<le> 1 \<and> (\<forall>r\<in>set rows. Id r = ''123'')"
proof (induction rule: reachable.induct)
  case fresh
  then show ?case by simp
next
  case (invocation w e c h w')
  then show ?case
    using main_length [of e c w h w'] main_ids [of e c w h w'] by blast
qed

subsection \<open>From \<^verbatim>\<open>init\<close> to \<^verbatim>\<open>start\<close>\<close>

text \<open>
  C4. After an \<^verbatim>\<open>init\<close> that succeeded, on a store the program has built (or on any store
  whose rows of that name have the id \<^verbatim>\<open>123\<close>), the lookup that \<^verbatim>\<open>start\<close> makes of the same
  name returns the ID, Name, Path, Command and TearDown that \<^verbatim>\<open>init\<close> wrote.
\<close>

theorem init_start_roundtrip:
  assumes "main e (Init name path command teardown) w = (None, w')"
    and "reachable (db w) \<or> (\<forall>r\<in>set (db w). NameCol r = name \<longrightarrow> Id r = ''123'')"
    and "\<not> query_err e'"
  shows "LoadProject e' name (db w') =
           Inr \<lparr>ID = ''123'', Name = name, Path = path, Command = command,
                TearDown = teardown\<rparr>"
proof -
  let ?new = "\<lparr>Id = ''123'', NameCol = name, PathCol = path, CommandCol = command,
       TearDownCol = teardown, CreatedAt = now e\<rparr>"
  have rows: "db w' = filter (\<lambda>r. Id r \<noteq> ''123'') (db w) @ [?new]"
    using main_Init_db [OF assms(1)] .
  from assms(2) have "\<forall>r\<in>set (db w). NameCol r = name \<longrightarrow> Id r = ''123''"
    using reachable_ids by blast
  then have "name \<notin> NameCol ` set (filter (\<lambda>r. Id r \<noteq> ''123'') (db w))"
    by auto
  then have "find (\<lambda>r. NameCol r = name) (filter (\<lambda>r. Id r \<noteq> ''123'') (db w)) = None"
    by (simp add: find_first_row)
  then have "find (\<lambda>r. NameCol r = name) (db w') = Some ?new"
    by (simp add: rows find_snoc)
  with assms(3) show ?thesis
    by (simp add: LoadProject_def find_stmt_def)
qed

theorem init_start_roundtrip_witness:
  "main calm (Init ''a'' ''/a'' ''make'' ''make clean'') (blank []) =
     (None, (blank [\<lparr>Id = ''123'', NameCol = ''a'', PathCol = ''/a'', CommandCol = ''make'',
        TearDownCol = ''make clean'', CreatedAt = 0\<rparr>])
        \<lparr>disk := \<lparr>files = [''/a/proj.yml'' \<mapsto> ''name: a''], write_err = Map.empty\<rparr>\<rparr>) \<and>
   reachable (db (blank [])) \<and> \<not> query_err calm \<and>
   LoadProject calm ''a'' [\<lparr>Id = ''123'', NameCol = ''a'', PathCol = ''/a'', CommandCol = ''make'',
        TearDownCol = ''make clean'', CreatedAt = 0\<rparr>] =
     Inr \<lparr>ID = ''123'', Name = ''a'', Path = ''/a'', Command = ''make'',
          TearDown = ''make clean''\<rparr>"
proof -
  have run: "main calm (Init ''a'' ''/a'' ''make'' ''make clean'') (blank []) =
     (None, (blank [\<lparr>Id = ''123'', NameCol = ''a'', PathCol = ''/a'', CommandCol = ''make'',
        TearDownCol = ''make clean'', CreatedAt = 0\<rparr>])
        \<lparr>disk := \<lparr>files = [''/a/proj.yml'' \<mapsto> ''name: a''], write_err = Map.empty\<rparr>\<rparr>)"
    by (simp add: main_def InitDB_def CreateTable_def InitProject_def CreateProjectFile_def
        WriteFile_def SaveProject_def calm_def blank_def)
  have start: "reachable (db (blank []))"
    by (simp add: blank_def reachable.fresh)
  have quiet: "\<not> query_err calm"
    by (simp add: calm_def)
  from init_start_roundtrip [OF run disjI1 [OF start] quiet] run start quiet
  show ?thesis by (simp add: blank_def)
qed

subsection \<open>The constant id of \<^verbatim>\<open>init\<close>\<close>

text \<open>
  C8. Whatever the flags, \<^verbatim>\<open>init\<close> stores its record under the id \<^verbatim>\<open>123\<close>. Of two
  successive \<^verbatim>\<open>init\<close> invocations with different names, the second replaces the row of
  the first: the store then holds the second record as its only row with that id, the
  first record's row is gone, and a store built by the program never holds more than one
  row.
\<close>

theorem init_constant_id:
  assumes "main e1 (Init n1 p1 c1 t1) w = (None, w1)"
    and "main e2 (Init n2 p2 c2 t2) w1 = (None, w2)"
    and "n1 \<noteq> n2"
  shows "\<exists>row1 row2.
           row1 = \<lparr>Id = ''123'', NameCol = n1, PathCol = p1, CommandCol = c1,
                   TearDownCol = t1, CreatedAt = now e1\<rparr> \<and>
           row2 = \<lparr>Id = ''123'', NameCol = n2, PathCol = p2, CommandCol = c2,
                   TearDownCol = t2, CreatedAt = now e2\<rparr> \<and>
           db w1 = filter (\<lambda>r. Id r \<noteq> ''123'') (db w) @ [row1] \<and>
           db w2 = filter (\<lambda>r. Id r \<noteq> ''123'') (db w) @ [row2] \<and>
           filter (\<lambda>r. Id r = ''123'') (db w2) = [row2] \<and>
           row1 \<notin> set (db w2) \<and>
           (reachable (db w) \<longrightarrow> db w1 = [row1] \<and> db w2 = [row2]) \<and>
           (\<forall>rows. reachable rows \<longrightarrow> length rows \<le> 1 \<and> (\<forall>r\<in>set rows. Id r = ''123''))"
proof -
  define row1 where "row1 = \<lparr>Id = ''123'', NameCol = n1, PathCol = p1, CommandCol = c1,
      TearDownCol = t1, CreatedAt = now e1\<rparr>"
  define row2 where "row2 = \<lparr>Id = ''123'', NameCol = n2, PathCol = p2, CommandCol = c2,
      TearDownCol = t2, CreatedAt = now e2\<rparr>"
  define others where "others = filter (\<lambda>r. Id r \<noteq> ''123'') (db w)"
  have id1: "Id row1 = ''123''" and id2: "Id row2 = ''123''"
    by (simp_all add: row1_def row2_def)
  have first: "db w1 = others @ [row1]"
    using main_Init_db [OF assms(1)] by (simp add: row1_def others_def)
  have "db w2 = filter (\<lambda>r. Id r \<noteq> ''123'') (db w1) @ [row2]"
    using main_Init_db [OF assms(2)] by (simp add: row2_def)
  then have second: "db w2 = others @ [row2]"
    by (simp add: first id1) (simp add: others_def)
  have only: "filter (\<lambda>r. Id r = ''123'') (db w2) = [row2]"
    by (simp add: second id2) (simp add: others_def filter_empty_conv)
  have "row1 \<noteq> row2"
    using assms(3) by (auto simp: row1_def row2_def)
  moreover have "row1 \<notin> set others"
    using id1 by (auto simp: others_def)
  ultimately have gone: "row1 \<notin> set (db w2)"
    by (simp add: second)
  have built: "db w1 = [row1] \<and> db w2 = [row2]" if "reachable (db w)"
  proof -
    from that have "others = []"
      unfolding others_def by (simp add: reachable_ids filter_all_same_id)
    then show ?thesis by (simp add: first second)
  qed
  from row1_def row2_def first second only gone built reachable_single show ?thesis
    unfolding others_def by blast
qed

theorem init_constant_id_witness:
  "main calm (Init ''a'' ''/a'' ''make'' []) (blank []) =
     (None, (blank [\<lparr>Id = ''123'', NameCol = ''a'', PathCol = ''/a'', CommandCol = ''make'',
        TearDownCol = [], CreatedAt = 0\<rparr>])
        \<lparr>disk := \<lparr>files = [''/a/proj.yml'' \<mapsto> ''name: a''], write_err = Map.empty\<rparr>\<rparr>) \<and>
   main (calm\<lparr>now := 9\<rparr>) (Init ''b'' ''/b'' ''run'' ''halt'')
     ((blank [\<lparr>Id = ''123'', NameCol = ''a'', PathCol = ''/a'', CommandCol = ''make'',
        TearDownCol = [], CreatedAt = 0\<rparr>])
        \<lparr>disk := \<lparr>files = [''/a/proj.yml'' \<mapsto> ''name: a''], write_err = Map.empty\<rparr>\<rparr>) =
     (None, (blank [\<lparr>Id = ''123'', NameCol = ''b'', PathCol = ''/b'', CommandCol = ''run'',
        TearDownCol = ''halt'', CreatedAt = 9\<rparr>])
        \<lparr>disk := \<lparr>files = [''/a/proj.yml'' \<mapsto> ''name: a'', ''/b/proj.yml'' \<mapsto> ''name: b''],
                  write_err = Map.empty\<rparr>\<rparr>) \<and>
   ''a'' \<noteq> ''b'' \<and>
   \<lparr>Id = ''123'', NameCol = ''a'', PathCol = ''/a'', CommandCol = ''make'',
        TearDownCol = [], CreatedAt = 0\<rparr> \<notin>
     set [\<lparr>Id = ''123'', NameCol = ''b'', PathCol = ''/b'', CommandCol = ''run'',
        TearDownCol = ''halt'', CreatedAt = 9\<rparr>]"
proof -
  have one: "main calm (Init ''a'' ''/a'' ''make'' []) (blank []) =
     (None, (blank [\<lparr>Id = ''123'', NameCol = ''a'', PathCol = ''/a'', CommandCol = ''make'',
        TearDownCol = [], CreatedAt = 0\<rparr>])
        \<lparr>disk := \<lparr>files = [''/a/proj.yml'' \<mapsto> ''name: a''], write_err = Map.empty\<rparr>\<rparr>)"
    by (simp add: main_def InitDB_def CreateTable_def InitProject_def CreateProjectFile_def
        WriteFile_def SaveProject_def calm_def blank_def)
  have two: "main (calm\<lparr>now := 9\<rparr>) (Init ''b'' ''/b'' ''run'' ''halt'')
     ((blank [\<lparr>Id = ''123'', NameCol = ''a'', PathCol = ''/a'', CommandCol = ''make'',
        TearDownCol = [], CreatedAt = 0\<rparr>])
        \<lparr>disk := \<lparr>files = [''/a/proj.yml'' \<mapsto> ''name: a''], write_err = Map.empty\<rparr>\<rparr>) =
     (None, (blank [\<lparr>Id = ''123'', NameCol = ''b'', PathCol = ''/b'', CommandCol = ''run'',
        TearDownCol = ''halt'', CreatedAt = 9\<rparr>])
        \<lparr>disk := \<lparr>files = [''/a/proj.yml'' \<mapsto> ''name: a'', ''/b/proj.yml'' \<mapsto> ''name: b''],
                  write_err = Map.empty\<rparr>\<rparr>)"
    by (simp add: main_def InitDB_def CreateTable_def InitProject_def CreateProjectFile_def
        WriteFile_def SaveProject_def calm_def blank_def)
  have names: "''a'' \<noteq> ''b''" by simp
  from init_constant_id [OF one two names] one two show ?thesis
    by (simp add: blank_def)
qed

subsection \<open>Running the stored command\<close>

lemma StartProject_loaded:
  assumes "LoadProject e name (db w) = Inr p"
  shows "StartProject e name w =
     (let argv = [''sh'', ''-c'', Command p, Path p];
          q = sh e (cwd e) argv;
          w' = w\<lparr>printed := printed w @
                   [(Magenta, ''==> Executing: sh -c '' @ Command p @ '' '' @ Path p @ nl)],
                 spawned := spawned w @ [(cwd e, argv)]\<rparr>
      in if exit_code q = 0
         then (None, w'\<lparr>printed := printed w' @ printOutput (stdout q)\<rparr>)
         else (Some (cliError (''exit status '' @ decimal (exit_code q))), w'))"
  using assms
  by (simp add: StartProject_def Run_def exec_Command_def printCommand_def Let_def)

lemma StopProject_loaded:
  assumes "LoadProject e name (db w) = Inr p"
  shows "StopProject e name w =
     (let argv = [''sh'', ''-c'', TearDown p, Path p];
          q = sh e (cwd e) argv;
          w' = w\<lparr>printed := printed w @
                   [(Magenta, ''==> Executing: sh -c '' @ TearDown p @ '' '' @ Path p @ nl)],
                 spawned := spawned w @ [(cwd e, argv)]\<rparr>
      in if exit_code q = 0
         then (None, w'\<lparr>printed := printed w' @ printOutput (stdout q)\<rparr>)
         else (Some (cliError (''exit status '' @ decimal (exit_code q))), w'))"
  using assms
  by (simp add: StopProject_def Run_def exec_Command_def printCommand_def Let_def)

text \<open>
  C5, as the specification states it, fails: the fatal message of a failed command is
  made of its exit status alone. A command that wrote \<^verbatim>\<open>compiling\<close> and \<^verbatim>\<open>boom\<close> and
  exited with status 1 leaves two lines, the command line and the error, neither of
  which holds what the command wrote.
\<close>

theorem start_error_context_counterexample:
  "StartProject
     (calm\<lparr>sh := (\<lambda>d a. \<lparr>exit_code = 1, stdout = ''compiling'', stderr = ''boom''\<rparr>)\<rparr>)
     ''a''
     (blank [\<lparr>Id = ''123'', NameCol = ''a'', PathCol = ''/a'', CommandCol = ''make'',
        TearDownCol = [], CreatedAt = 0\<rparr>]) =
     (Some (OsExit (Red, ''==> Error: exit status 1'' @ [CHR 0x0A]) 1),
      (blank [\<lparr>Id = ''123'', NameCol = ''a'', PathCol = ''/a'', CommandCol = ''make'',
        TearDownCol = [], CreatedAt = 0\<rparr>])
      \<lparr>printed := [(Magenta, ''==> Executing: sh -c make /a'' @ [CHR 0x0A])],
        spawned := [(''/home/dev'', [''sh'', ''-c'', ''make'', ''/a''])]\<rparr>) \<and>
   \<not> sublist ''boom'' (''==> Error: exit status 1'' @ [CHR 0x0A]) \<and>
   \<not> sublist ''compiling'' (''==> Error: exit status 1'' @ [CHR 0x0A]) \<and>
   \<not> sublist ''boom'' (''==> Executing: sh -c make /a'' @ [CHR 0x0A]) \<and>
   \<not> sublist ''compiling'' (''==> Executing: sh -c make /a'' @ [CHR 0x0A])"
  by (simp add: StartProject_def LoadProject_def find_stmt_def Run_def exec_Command_def
      printCommand_def cliError_def nl_def decimal.simps digit_def calm_def blank_def
      sublist_code)

text \<open>
  C5, amended. For every stored project whose command exits with a non-zero status,
  \<^verbatim>\<open>start\<close> (and \<^verbatim>\<open>stop\<close> for the teardown command) ends in the fatal error of \<^verbatim>\<open>cliError\<close>,
  exit status 1, whose red message is \<^verbatim>\<open>exit status N\<close> for the status N of the command;
  before it only the command line was printed, and what the command wrote is not.
\<close>

theorem start_stop_failure:
  assumes "LoadProject e name (db w) = Inr p"
  shows "(exit_code (sh e (cwd e) [''sh'', ''-c'', Command p, Path p]) \<noteq> 0 \<longrightarrow>
            StartProject e name w =
              (Some (OsExit (Red, ''==> Error: exit status '' @
                       decimal (exit_code (sh e (cwd e) [''sh'', ''-c'', Command p, Path p])) @
                       nl) 1),
               w\<lparr>printed := printed w @
                    [(Magenta, ''==> Executing: sh -c '' @ Command p @ '' '' @ Path p @ nl)],
                  spawned := spawned w @ [(cwd e, [''sh'', ''-c'', Command p, Path p])]\<rparr>)) \<and>
         (exit_code (sh e (cwd e) [''sh'', ''-c'', TearDown p, Path p]) \<noteq> 0 \<longrightarrow>
            StopProject e name w =
              (Some (OsExit (Red, ''==> Error: exit status '' @
                       decimal (exit_code (sh e (cwd e) [''sh'', ''-c'', TearDown p, Path p])) @
                       nl) 1),
               w\<lparr>printed := printed w @
                    [(Magenta, ''==> Executing: sh -c '' @ TearDown p @ '' '' @ Path p @ nl)],
                  spawned := spawned w @ [(cwd e, [''sh'', ''-c'', TearDown p, Path p])]\<rparr>))"
  by (simp add: StartProject_loaded [OF assms] StopProject_loaded [OF assms] Let_def
      cliError_def)

theorem start_stop_failure_witness:
  "LoadProject (calm\<lparr>sh := (\<lambda>d a. \<lparr>exit_code = 127, stdout = ''compiling'', stderr = ''boom''\<rparr>)\<rparr>)
     ''a''
     (db (blank [\<lparr>Id = ''123'', NameCol = ''a'', PathCol = ''/a'', CommandCol = ''make'',
        TearDownCol = ''make clean'', CreatedAt = 0\<rparr>])) =
     Inr \<lparr>ID = ''123'', Name = ''a'', Path = ''/a'', Command = ''make'',
          TearDown = ''make clean''\<rparr> \<and>
   fst (StopProject
     (calm\<lparr>sh := (\<lambda>d a. \<lparr>exit_code = 127, stdout = ''compiling'', stderr = ''boom''\<rparr>)\<rparr>)
     ''a''
     (blank [\<lparr>Id = ''123'', NameCol = ''a'', PathCol = ''/a'', CommandCol = ''make'',
        TearDownCol = ''make clean'', CreatedAt = 0\<rparr>])) =
     Some (OsExit (Red, ''==> Error: exit status 127'' @ [CHR 0x0A]) 1) \<and>
   fst (StartProject
     (calm\<lparr>sh := (\<lambda>d a. \<lparr>exit_code = 127, stdout = ''compiling'', stderr = ''boom''\<rparr>)\<rparr>)
     ''a''
     (blank [\<lparr>Id = ''123'', NameCol = ''a'', PathCol = ''/a'', CommandCol = ''make'',
        TearDownCol = ''make clean'', CreatedAt = 0\<rparr>])) =
     Some (OsExit (Red, ''==> Error: exit status 127'' @ [CHR 0x0A]) 1)"
proof -
  have load: "LoadProject
     (calm\<lparr>sh := (\<lambda>d a. \<lparr>exit_code = 127, stdout = ''compiling'', stderr = ''boom''\<rparr>)\<rparr>)
     ''a''
     (db (blank [\<lparr>Id = ''123'', NameCol = ''a'', PathCol = ''/a'', CommandCol = ''make'',
        TearDownCol = ''make clean'', CreatedAt = 0\<rparr>])) =
     Inr \<lparr>ID = ''123'', Name = ''a'', Path = ''/a'', Command = ''make'',
          TearDown = ''make clean''\<rparr>"
    by (simp add: LoadProject_def find_stmt_def calm_def blank_def)
  have num: "decimal 127 = ''127''"
    by (simp add: decimal.simps digit_def)
  from start_stop_failure [OF load] load show ?thesis
    by (simp add: num nl_def)
qed

subsection \<open>How an invocation fails\<close>

lemma LoadProject_Inl:
  "LoadProject e name rows = Inl h \<Longrightarrow> h = cliError ''Failed to load project.''"
  by (auto simp: LoadProject_def split: if_splits option.splits)

lemma CreateProjectFile_Inl:
  "CreateProjectFile e p fs = Inl h \<longleftrightarrow>
     (\<exists>v. h = GoPanic v \<and>
        (yaml_Marshal e p = Inl v \<or>
         (\<exists>data. yaml_Marshal e p = Inr data \<and>
            WriteFile (Path p @ ''/proj.yml'') data fs = Inl v)))"
  by (auto simp: CreateProjectFile_def split: sum.splits)

lemma InitProject_halt:
  assumes "InitProject e p w = (Some h, w')" and "\<not> prepare_err e"
  shows "CreateProjectFile e p (disk w) = Inl h \<and> w' = w \<or>
         h = cliError ''Failed to save project.'' \<and> exec_err e \<and>
         (\<exists>fs. CreateProjectFile e p (disk w) = Inr fs \<and> w' = w\<lparr>disk := fs\<rparr>)"
  using assms
  by (auto simp: InitProject_def SaveProject_def split: sum.splits if_splits)

lemma InitProject_None:
  assumes "InitProject e p w = (None, w')"
  shows "\<not> prepare_err e \<and> \<not> exec_err e \<and> (\<exists>fs. CreateProjectFile e p (disk w) = Inr fs)"
  using assms
  by (auto simp: InitProject_def SaveProject_Inr split: sum.splits)

lemma CommitChanges_halt:
  assumes "CommitChanges e w = (Some h, w')"
  shows "w' = w \<and>
         (h = cliError ''Failed to update project.'' \<and> (prepare_err e \<or> exec_err e) \<or>
          (\<exists>v. h = GoPanic v \<and>
             (ReadFile ''./proj.yml'' (disk w) = Inl v \<or>
              (\<exists>data. ReadFile ''./proj.yml'' (disk w) = Inr data \<and>
                 yaml_Unmarshal e data = Inl v))))"
  using assms
  by (auto simp: CommitChanges_def UpdateProject_def split: sum.splits if_splits)

lemma CommitChanges_None:
  assumes "CommitChanges e w = (None, w')"
  shows "\<not> prepare_err e \<and> \<not> exec_err e \<and>
         (\<exists>data p. ReadFile ''./proj.yml'' (disk w) = Inr data \<and> yaml_Unmarshal e data = Inr p)"
  using assms
  by (auto simp: CommitChanges_def UpdateProject_Inr split: sum.splits)

lemma StartProject_halt:
  assumes "StartProject e name w = (Some h, w')"
  shows "h = cliError ''Failed to load project.'' \<and> w' = w \<or>
         (\<exists>k. k \<noteq> 0 \<and> h = cliError (''exit status '' @ decimal k)) \<and>
         db w' = db w \<and> disk w' = disk w \<and> length (spawned w') = Suc (length (spawned w))"
proof (cases "LoadProject e name (db w)")
  case (Inl a)
  with assms LoadProject_Inl [OF Inl] show ?thesis
    by (simp add: StartProject_def)
next
  case (Inr p)
  from assms show ?thesis
    unfolding StartProject_loaded [OF Inr] Let_def
    by (auto split: if_splits)
qed

lemma StopProject_halt:
  assumes "StopProject e name w = (Some h, w')"
  shows "h = cliError ''Failed to load project.'' \<and> w' = w \<or>
         (\<exists>k. k \<noteq> 0 \<and> h = cliError (''exit status '' @ decimal k)) \<and>
         db w' = db w \<and> disk w' = disk w \<and> length (spawned w') = Suc (length (spawned w))"
proof (cases "LoadProject e name (db w)")
  case (Inl a)
  with assms LoadProject_Inl [OF Inl] show ?thesis
    by (simp add: StopProject_def)
next
  case (Inr p)
  from assms show ?thesis
    unfolding StopProject_loaded [OF Inr] Let_def
    by (auto split: if_splits)
qed

lemma StartProject_None:
  assumes "StartProject e name w = (None, w')"
  shows "\<exists>p. LoadProject e name (db w) = Inr p \<and>
           exit_code (sh e (cwd e) [''sh'', ''-c'', Command p, Path p]) = 0"
proof (cases "LoadProject e name (db w)")
  case (Inl a)
  with assms show ?thesis
    by (simp add: StartProject_def)
next
  case (Inr p)
  from assms show ?thesis
    unfolding StartProject_loaded [OF Inr] Let_def
    by (auto simp: Inr split: if_splits)
qed

lemma StopProject_None:
  assumes "StopProject e name w = (None, w')"
  shows "\<exists>p. LoadProject e name (db w) = Inr p \<and>
           exit_code (sh e (cwd e) [''sh'', ''-c'', TearDown p, Path p]) = 0"
proof (cases "LoadProject e name (db w)")
  case (Inl a)
  with assms show ?thesis
    by (simp add: StopProject_def)
next
  case (Inr p)
  from assms show ?thesis
    unfolding StopProject_loaded [OF Inr] Let_def
    by (auto simp: Inr split: if_splits)
qed

subsection \<open>Every failure ends the process\<close>

lemma halt_cliError:
  "h = cliError msg \<Longrightarrow> exit_status h = 1 \<and> exit_status h \<noteq> 0 \<and> coloured_message h"
  by (simp add: cliError_def)

lemma main_halt:
  assumes "main e c w = (Some h, w')" and "is_Init c \<longrightarrow> \<not> prepare_err e"
  shows "exit_status h \<noteq> 0 \<and> db w' = db w \<and>
            length (spawned w') \<le> Suc (length (spawned w)) \<and>
            ((\<exists>msg. h = cliError msg \<and> exit_status h = 1 \<and> coloured_message h \<and>
                (msg \<in> set [''Could not create database.'', ''DB Not found!'',
                    ''Failed to create database table.'', ''Failed to save project.'',
                    ''Failed to update project.'', ''Failed to load project.''] \<or>
                 (\<exists>k. k \<noteq> 0 \<and> msg = ''exit status '' @ decimal k))) \<or>
             (\<exists>v. h = GoPanic v \<and> exit_status h = 2 \<and> \<not> coloured_message h \<and>
                disk w' = disk w \<and>
                ((\<exists>name path command teardown. c = Init name path command teardown \<and>
                    CreateProjectFile e \<lparr>ID = ''123'', Name = name, Path = path,
                      Command = command, TearDown = teardown\<rparr> (disk w) = Inl h) \<or>
                 c = Commit \<and>
                   (ReadFile ''./proj.yml'' (disk w) = Inl v \<or>
                    (\<exists>data. ReadFile ''./proj.yml'' (disk w) = Inr data \<and>
                       yaml_Unmarshal e data = Inl v))))) \<and>
            (\<forall>name path command teardown fs.
               open_result e = Opened \<and> \<not> table_err e \<and>
               c = Init name path command teardown \<and>
               CreateProjectFile e \<lparr>ID = ''123'', Name = name, Path = path,
                 Command = command, TearDown = teardown\<rparr> (disk w) = Inr fs \<longrightarrow>
               disk w' = fs \<and> h = cliError ''Failed to save project.'')"
    (is "?S \<and> ?D \<and> ?L \<and> (?C \<or> ?P) \<and> ?R")
proof -
  have coloured: "?S \<and> ?D \<and> ?L \<and> (?C \<or> ?P) \<and> ?R"
    if h: "h = cliError msg"
      and msg: "msg \<in> set [''Could not create database.'', ''DB Not found!'',
          ''Failed to create database table.'', ''Failed to save project.'',
          ''Failed to update project.'', ''Failed to load project.''] \<or>
          (\<exists>k. k \<noteq> 0 \<and> msg = ''exit status '' @ decimal k)"
      and d: ?D and l: ?L and r: ?R for msg
  proof -
    from h have s: ?S by (simp add: cliError_def)
    from h have "exit_status h = 1 \<and> coloured_message h" by (simp add: cliError_def)
    with h msg have ?C by blast
    then have "?C \<or> ?P" ..
    with s d l r show ?thesis by blast
  qed
  have panic: "?S \<and> ?D \<and> ?L \<and> (?C \<or> ?P) \<and> ?R"
    if h: "h = GoPanic v" and w: "w' = w\<lparr>printed := lines\<rparr>"
      and cause: "(\<exists>name path command teardown. c = Init name path command teardown \<and>
           CreateProjectFile e \<lparr>ID = ''123'', Name = name, Path = path,
             Command = command, TearDown = teardown\<rparr> (disk w) = Inl h) \<or>
         c = Commit \<and>
           (ReadFile ''./proj.yml'' (disk w) = Inl v \<or>
            (\<exists>data. ReadFile ''./proj.yml'' (disk w) = Inr data \<and>
               yaml_Unmarshal e data = Inl v))" for v lines
  proof -
    from h have s: ?S by simp
    from w have d: ?D and l: ?L and k: "disk w' = disk w" by simp_all
    from h have "exit_status h = 2 \<and> \<not> coloured_message h" by simp
    with h k cause have ?P by blast
    then have cp: "?C \<or> ?P" ..
    from cause have r: ?R by auto
    from s d l cp r show ?thesis by blast
  qed
  show ?thesis
  proof (cases "open_result e = Opened \<and> \<not> table_err e")
    case False
    then have "main e c w =
       (Some (cliError (if open_result e = OpenError then ''Could not create database.''
                        else if open_result e = OpenNil then ''DB Not found!''
                        else ''Failed to create database table.'')), w)"
      by (intro main_closed) simp
    with assms(1) have h: "h = cliError (if open_result e = OpenError
          then ''Could not create database.''
          else if open_result e = OpenNil then ''DB Not found!''
          else ''Failed to create database table.'')" and w: "w' = w"
      by simp_all
    show ?thesis
      by (rule coloured [OF h]) (use False w in auto)
  next
    case True
    note opened = main_opened [of e, OF conjunct1 [OF True] conjunct2 [OF True]]
    show ?thesis
    proof (cases c)
      case (Init name path command teardown)
      let ?p = "\<lparr>ID = ''123'', Name = name, Path = path, Command = command,
                  TearDown = teardown\<rparr>"
      from assms(1) have run: "InitProject e ?p w = (Some h, w')"
        by (simp add: opened Init)
      from assms(2) Init have prep: "\<not> prepare_err e" by simp
      from InitProject_halt [OF run prep] show ?thesis
      proof
        assume wrote: "CreateProjectFile e ?p (disk w) = Inl h \<and> w' = w"
        then obtain v where h: "h = GoPanic v"
          by (auto simp: CreateProjectFile_Inl)
        from wrote have w: "w' = w\<lparr>printed := printed w\<rparr>" by simp
        show ?thesis
          by (rule panic [OF h w]) (use wrote Init in blast)
      next
        assume save: "h = cliError ''Failed to save project.'' \<and> exec_err e \<and>
           (\<exists>fs. CreateProjectFile e ?p (disk w) = Inr fs \<and> w' = w\<lparr>disk := fs\<rparr>)"
        then have h: "h = cliError ''Failed to save project.''" by simp
        show ?thesis
          by (rule coloured [OF h]) (use save Init in auto)
      qed
    next
      case Commit
      from assms(1) have run: "CommitChanges e
          (w\<lparr>printed := printed w @ [(Green, ''Updating...'' @ nl)]\<rparr>) = (Some h, w')"
        by (simp add: opened Commit)
      from CommitChanges_halt [OF run]
      have w: "w' = w\<lparr>printed := printed w @ [(Green, ''Updating...'' @ nl)]\<rparr>"
        and how: "h = cliError ''Failed to update project.'' \<or>
          (\<exists>v. h = GoPanic v \<and>
             (ReadFile ''./proj.yml'' (disk w) = Inl v \<or>
              (\<exists>data. ReadFile ''./proj.yml'' (disk w) = Inr data \<and>
                 yaml_Unmarshal e data = Inl v)))"
        by auto
      from how show ?thesis
      proof
        assume h: "h = cliError ''Failed to update project.''"
        show ?thesis
          by (rule coloured [OF h]) (use w Commit in auto)
      next
        assume "\<exists>v. h = GoPanic v \<and>
             (ReadFile ''./proj.yml'' (disk w) = Inl v \<or>
              (\<exists>data. ReadFile ''./proj.yml'' (disk w) = Inr data \<and>
                 yaml_Unmarshal e data = Inl v))"
        then obtain v where h: "h = GoPanic v"
          and v: "ReadFile ''./proj.yml'' (disk w) = Inl v \<or>
              (\<exists>data. ReadFile ''./proj.yml'' (disk w) = Inr data \<and>
                 yaml_Unmarshal e data = Inl v)"
          by blast
        show ?thesis
          by (rule panic [OF h w]) (use v Commit in blast)
      qed
    next
      case (Start name)
      from assms(1) have run: "StartProject e name
          (w\<lparr>printed := printed w @ [(Green, ''Starting '' @ name @ nl)]\<rparr>) = (Some h, w')"
        by (simp add: opened Start)
      from StartProject_halt [OF run]
      have d: "db w' = db w" and l: "length (spawned w') \<le> Suc (length (spawned w))"
        and how: "h = cliError ''Failed to load project.'' \<or>
          (\<exists>k. k \<noteq> 0 \<and> h = cliError (''exit status '' @ decimal k))"
        by auto
      have r: "\<forall>name path command teardown fs.
               open_result e = Opened \<and> \<not> table_err e \<and>
               c = Init name path command teardown \<and>
               CreateProjectFile e \<lparr>ID = ''123'', Name = name, Path = path,
                 Command = command, TearDown = teardown\<rparr> (disk w) = Inr fs \<longrightarrow>
               disk w' = fs \<and> h = cliError ''Failed to save project.''"
        using Start by simp
      from how show ?thesis
      proof
        assume h: "h = cliError ''Failed to load project.''"
        show ?thesis
          by (rule coloured [OF h _ d l r]) simp
      next
        assume "\<exists>k. k \<noteq> 0 \<and> h = cliError (''exit status '' @ decimal k)"
        then obtain k where k: "k \<noteq> 0" and h: "h = cliError (''exit status '' @ decimal k)"
          by blast
        show ?thesis
          by (rule coloured [OF h _ d l r]) (use k in blast)
      qed
    next
      case (Stop name)
      from assms(1) have run: "StopProject e name
          (w\<lparr>printed := printed w @ [(Blue, ''Stopping: '' @ name @ nl)]\<rparr>) = (Some h, w')"
        by (simp add: opened Stop)
      from StopProject_halt [OF run]
      have d: "db w' = db w" and l: "length (spawned w') \<le> Suc (length (spawned w))"
        and how: "h = cliError ''Failed to load project.'' \<or>
          (\<exists>k. k \<noteq> 0 \<and> h = cliError (''exit status '' @ decimal k))"
        by auto
      have r: "\<forall>name path command teardown fs.
               open_result e = Opened \<and> \<not> table_err e \<and>
               c = Init name path command teardown \<and>
               CreateProjectFile e \<lparr>ID = ''123'', Name = name, Path = path,
                 Command = command, TearDown = teardown\<rparr> (disk w) = Inr fs \<longrightarrow>
               disk w' = fs \<and> h = cliError ''Failed to save project.''"
        using Stop by simp
      from how show ?thesis
      proof
        assume h: "h = cliError ''Failed to load project.''"
        show ?thesis
          by (rule coloured [OF h _ d l r]) simp
      next
        assume "\<exists>k. k \<noteq> 0 \<and> h = cliError (''exit status '' @ decimal k)"
        then obtain k where k: "k \<noteq> 0" and h: "h = cliError (''exit status '' @ decimal k)"
          by blast
        show ?thesis
          by (rule coloured [OF h _ d l r]) (use k in blast)
      qed
    qed
  qed
qed

lemma main_None:
  assumes "main e c w = (None, w')"
  shows "open_result e = Opened \<and> \<not> table_err e \<and>
            (case c of
               Init name path command teardown \<Rightarrow>
                 \<not> prepare_err e \<and> \<not> exec_err e \<and>
                 (\<exists>fs. CreateProjectFile e \<lparr>ID = ''123'', Name = name, Path = path,
                    Command = command, TearDown = teardown\<rparr> (disk w) = Inr fs)
             | Commit \<Rightarrow>
                 \<not> prepare_err e \<and> \<not> exec_err e \<and>
                 (\<exists>data p. ReadFile ''./proj.yml'' (disk w) = Inr data \<and>
                    yaml_Unmarshal e data = Inr p)
             | Start name \<Rightarrow>
                 (\<exists>p. LoadProject e name (db w) = Inr p \<and>
                    exit_code (sh e (cwd e) [''sh'', ''-c'', Command p, Path p]) = 0)
             | Stop name \<Rightarrow>
                 (\<exists>p. LoadProject e name (db w) = Inr p \<and>
                    exit_code (sh e (cwd e) [''sh'', ''-c'', TearDown p, Path p]) = 0))"
proof (cases "open_result e = Opened \<and> \<not> table_err e")
  case False
  with assms main_closed [of e c w] show ?thesis by simp
next
  case True
  note opened = main_opened [of e, OF conjunct1 [OF True] conjunct2 [OF True]]
  show ?thesis
  proof (cases c)
    case (Init name path command teardown)
    with assms opened have "InitProject e
        \<lparr>ID = ''123'', Name = name, Path = path, Command = command, TearDown = teardown\<rparr> w =
        (None, w')"
      by simp
    from InitProject_None [OF this] True Init show ?thesis by simp
  next
    case Commit
    with assms opened have "CommitChanges e
        (w\<lparr>printed := printed w @ [(Green, ''Updating...'' @ nl)]\<rparr>) = (None, w')"
      by simp
    from CommitChanges_None [OF this] True Commit show ?thesis by simp
  next
    case (Start name)
    with assms opened have "StartProject e name
        (w\<lparr>printed := printed w @ [(Green, ''Starting '' @ name @ nl)]\<rparr>) = (None, w')"
      by simp
    from StartProject_None [OF this] True Start show ?thesis by simp
  next
    case (Stop name)
    with assms opened have "StopProject e name
        (w\<lparr>printed := printed w @ [(Blue, ''Stopping: '' @ name @ nl)]\<rparr>) = (None, w')"
      by simp
    from StopProject_None [OF this] True Stop show ?thesis by simp
  qed
qed

lemma InitProject_terminal:
  assumes "InitProject e p w = (Some h, w')"
  shows "exit_status h \<noteq> 0 \<and> db w' = db w \<and> spawned w' = spawned w"
  using assms
  by (auto simp: InitProject_def SaveProject_def CreateProjectFile_def nil_dereference_def
      cliError_def split: sum.splits if_splits)

lemma main_terminal:
  assumes "main e c w = (Some h, w')"
  shows "exit_status h \<noteq> 0 \<and> db w' = db w \<and>
         length (spawned w') \<le> Suc (length (spawned w))"
proof (cases "is_Init c \<and> open_result e = Opened \<and> \<not> table_err e")
  case True
  then obtain name path command teardown where c: "c = Init name path command teardown"
    by (cases c) auto
  from assms True have "InitProject e
      \<lparr>ID = ''123'', Name = name, Path = path, Command = command, TearDown = teardown\<rparr> w =
      (Some h, w')"
    by (simp add: main_opened c)
  from InitProject_terminal [OF this] show ?thesis by simp
next
  case False
  show ?thesis
  proof (cases "is_Init c")
    case True
    with False have "open_result e \<noteq> Opened \<or> table_err e" by simp
    from main_closed [OF this, of c w] assms show ?thesis
      by (auto simp: cliError_def)
  next
    case False
    then have "is_Init c \<longrightarrow> \<not> prepare_err e" by simp
    from main_halt [OF assms this] show ?thesis by blast
  qed
qed

lemma main_Init_causes:
  assumes "open_result e = Opened" and "\<not> table_err e"
    and "project = \<lparr>ID = ''123'', Name = name, Path = path, Command = command,
           TearDown = teardown\<rparr>"
  shows "(\<forall>v. yaml_Marshal e project = Inl v \<longrightarrow>
            main e (Init name path command teardown) w = (Some (GoPanic v), w)) \<and>
         (\<forall>data v. yaml_Marshal e project = Inr data \<and>
            WriteFile (path @ ''/proj.yml'') data (disk w) = Inl v \<longrightarrow>
            main e (Init name path command teardown) w = (Some (GoPanic v), w)) \<and>
         (\<forall>fs. CreateProjectFile e project (disk w) = Inr fs \<and> \<not> prepare_err e \<and>
            exec_err e \<longrightarrow>
            main e (Init name path command teardown) w =
              (Some (cliError ''Failed to save project.''), w\<lparr>disk := fs\<rparr>))"
  using assms
  by (simp add: main_opened InitProject_def CreateProjectFile_def SaveProject_def)

lemma main_Commit_causes:
  assumes "open_result e = Opened" and "\<not> table_err e"
    and "w1 = w\<lparr>printed := printed w @ [(Green, ''Updating...'' @ nl)]\<rparr>"
  shows "(\<forall>v. ReadFile ''./proj.yml'' (disk w) = Inl v \<longrightarrow>
            main e Commit w = (Some (GoPanic v), w1)) \<and>
         (\<forall>data v. ReadFile ''./proj.yml'' (disk w) = Inr data \<and>
            yaml_Unmarshal e data = Inl v \<longrightarrow>
            main e Commit w = (Some (GoPanic v), w1)) \<and>
         (\<forall>data p. ReadFile ''./proj.yml'' (disk w) = Inr data \<and>
            yaml_Unmarshal e data = Inr p \<and> (prepare_err e \<or> exec_err e) \<longrightarrow>
            main e Commit w = (Some (cliError ''Failed to update project.''), w1))"
  using assms
  by (auto simp: main_opened CommitChanges_def UpdateProject_def)

lemma main_Start_causes:
  assumes "open_result e = Opened" and "\<not> table_err e"
    and "w1 = w\<lparr>printed := printed w @ [(Green, ''Starting '' @ name @ nl)]\<rparr>"
  shows "(\<forall>h. LoadProject e name (db w) = Inl h \<longrightarrow>
            main e (Start name) w = (Some (cliError ''Failed to load project.''), w1)) \<and>
         (\<forall>p. LoadProject e name (db w) = Inr p \<and>
            exit_code (sh e (cwd e) [''sh'', ''-c'', Command p, Path p]) \<noteq> 0 \<longrightarrow>
            main e (Start name) w =
              (Some (cliError (''exit status '' @
                 decimal (exit_code (sh e (cwd e) [''sh'', ''-c'', Command p, Path p])))),
               w1\<lparr>printed := printed w1 @
                    [(Magenta, ''==> Executing: sh -c '' @ Command p @ '' '' @ Path p @ nl)],
                  spawned := spawned w @ [(cwd e, [''sh'', ''-c'', Command p, Path p])]\<rparr>))"
proof (intro conjI allI impI)
  fix h
  assume "LoadProject e name (db w) = Inl h"
  with LoadProject_Inl [OF this] assms
  show "main e (Start name) w = (Some (cliError ''Failed to load project.''), w1)"
    by (simp add: main_opened StartProject_def)
next
  fix p
  assume "LoadProject e name (db w) = Inr p \<and>
     exit_code (sh e (cwd e) [''sh'', ''-c'', Command p, Path p]) \<noteq> 0"
  then have load: "LoadProject e name (db w1) = Inr p"
    and bad: "exit_code (sh e (cwd e) [''sh'', ''-c'', Command p, Path p]) \<noteq> 0"
    using assms(3) by simp_all
  show "main e (Start name) w =
      (Some (cliError (''exit status '' @
         decimal (exit_code (sh e (cwd e) [''sh'', ''-c'', Command p, Path p])))),
       w1\<lparr>printed := printed w1 @
            [(Magenta, ''==> Executing: sh -c '' @ Command p @ '' '' @ Path p @ nl)],
          spawned := spawned w @ [(cwd e, [''sh'', ''-c'', Command p, Path p])]\<rparr>)"
  proof -
    have m: "main e (Start name) w = StartProject e name w1"
      using assms by (simp add: main_opened)
    have sp: "spawned w1 = spawned w"
      using assms(3) by simp
    show ?thesis
      unfolding m StartProject_loaded [OF load] Let_def using bad by (simp add: sp)
  qed
qed

lemma main_Stop_causes:
  assumes "open_result e = Opened" and "\<not> table_err e"
    and "w1 = w\<lparr>printed := printed w @ [(Blue, ''Stopping: '' @ name @ nl)]\<rparr>"
  shows "(\<forall>h. LoadProject e name (db w) = Inl h \<longrightarrow>
            main e (Stop name) w = (Some (cliError ''Failed to load project.''), w1)) \<and>
         (\<forall>p. LoadProject e name (db w) = Inr p \<and>
            exit_code (sh e (cwd e) [''sh'', ''-c'', TearDown p, Path p]) \<noteq> 0 \<longrightarrow>
            main e (Stop name) w =
              (Some (cliError (''exit status '' @
                 decimal (exit_code (sh e (cwd e) [''sh'', ''-c'', TearDown p, Path p])))),
               w1\<lparr>printed := printed w1 @
                    [(Magenta, ''==> Executing: sh -c '' @ TearDown p @ '' '' @ Path p @ nl)],
                  spawned := spawned w @ [(cwd e, [''sh'', ''-c'', TearDown p, Path p])]\<rparr>))"
proof (intro conjI allI impI)
  fix h
  assume "LoadProject e name (db w) = Inl h"
  with LoadProject_Inl [OF this] assms
  show "main e (Stop name) w = (Some (cliError ''Failed to load project.''), w1)"
    by (simp add: main_opened StopProject_def)
next
  fix p
  assume "LoadProject e name (db w) = Inr p \<and>
     exit_code (sh e (cwd e) [''sh'', ''-c'', TearDown p, Path p]) \<noteq> 0"
  then have load: "LoadProject e name (db w1) = Inr p"
    and bad: "exit_code (sh e (cwd e) [''sh'', ''-c'', TearDown p, Path p]) \<noteq> 0"
    using assms(3) by simp_all
  show "main e (Stop name) w =
      (Some (cliError (''exit status '' @
         decimal (exit_code (sh e (cwd e) [''sh'', ''-c'', TearDown p, Path p])))),
       w1\<lparr>printed := printed w1 @
            [(Magenta, ''==> Executing: sh -c '' @ TearDown p @ '' '' @ Path p @ nl)],
          spawned := spawned w @ [(cwd e, [''sh'', ''-c'', TearDown p, Path p])]\<rparr>)"
  proof -
    have m: "main e (Stop name) w = StopProject e name w1"
      using assms by (simp add: main_opened)
    have sp: "spawned w1 = spawned w"
      using assms(3) by simp
    show ?thesis
      unfolding m StopProject_loaded [OF load] Let_def using bad by (simp add: sp)
  qed
qed

lemma InitProject_prepared:
  assumes "InitProject e p w = (None, w')"
  shows "\<not> prepare_err e"
  using InitProject_None [OF assms] by simp

lemma main_Init_failures:
  assumes "open_result e = Opened \<and> \<not> table_err e"
  shows "\<forall>name path command teardown project.
         c = Init name path command teardown \<and>
         project = \<lparr>ID = ''123'', Name = name, Path = path, Command = command,
                     TearDown = teardown\<rparr> \<longrightarrow>
         (\<forall>v. yaml_Marshal e project = Inl v \<longrightarrow> main e c w = (Some (GoPanic v), w)) \<and>
         (\<forall>data v. yaml_Marshal e project = Inr data \<and>
            WriteFile (path @ ''/proj.yml'') data (disk w) = Inl v \<longrightarrow>
            main e c w = (Some (GoPanic v), w)) \<and>
         (\<forall>fs. CreateProjectFile e project (disk w) = Inr fs \<and> \<not> prepare_err e \<and>
            exec_err e \<longrightarrow>
            main e c w = (Some (cliError ''Failed to save project.''), w\<lparr>disk := fs\<rparr>))"
    (is "\<forall>name path command teardown project. _ \<longrightarrow> ?P name path command teardown project")
proof (intro allI impI)
  fix name path command teardown project
  assume "c = Init name path command teardown \<and>
         project = \<lparr>ID = ''123'', Name = name, Path = path, Command = command,
                     TearDown = teardown\<rparr>"
  then have c: "c = Init name path command teardown"
    and p: "project = \<lparr>ID = ''123'', Name = name, Path = path, Command = command,
                     TearDown = teardown\<rparr>"
    by simp_all
  from main_Init_causes [OF conjunct1 [OF assms] conjunct2 [OF assms] p, of w]
  show "?P name path command teardown project"
    unfolding c .
qed

lemma main_Commit_failures:
  assumes "open_result e = Opened \<and> \<not> table_err e"
  shows "\<forall>w1. c = Commit \<and>
         w1 = w\<lparr>printed := printed w @ [(Green, ''Updating...'' @ nl)]\<rparr> \<longrightarrow>
         (\<forall>v. ReadFile ''./proj.yml'' (disk w) = Inl v \<longrightarrow>
            main e c w = (Some (GoPanic v), w1)) \<and>
         (\<forall>data v. ReadFile ''./proj.yml'' (disk w) = Inr data \<and>
            yaml_Unmarshal e data = Inl v \<longrightarrow>
            main e c w = (Some (GoPanic v), w1)) \<and>
         (\<forall>data p. ReadFile ''./proj.yml'' (disk w) = Inr data \<and>
            yaml_Unmarshal e data = Inr p \<and> (prepare_err e \<or> exec_err e) \<longrightarrow>
            main e c w = (Some (cliError ''Failed to update project.''), w1))"
    (is "\<forall>w1. _ \<longrightarrow> ?P w1")
proof (intro allI impI)
  fix w1
  assume "c = Commit \<and>
         w1 = w\<lparr>printed := printed w @ [(Green, ''Updating...'' @ nl)]\<rparr>"
  then have c: "c = Commit"
    and w1: "w1 = w\<lparr>printed := printed w @ [(Green, ''Updating...'' @ nl)]\<rparr>"
    by simp_all
  from main_Commit_causes [OF conjunct1 [OF assms] conjunct2 [OF assms] w1]
  show "?P w1"
    unfolding c .
qed

lemma main_Start_failures:
  assumes "open_result e = Opened \<and> \<not> table_err e"
  shows "\<forall>name w1. c = Start name \<and>
         w1 = w\<lparr>printed := printed w @ [(Green, ''Starting '' @ name @ nl)]\<rparr> \<longrightarrow>
         (\<forall>h. LoadProject e name (db w) = Inl h \<longrightarrow>
            main e c w = (Some (cliError ''Failed to load project.''), w1)) \<and>
         (\<forall>p. LoadProject e name (db w) = Inr p \<and>
            exit_code (sh e (cwd e) [''sh'', ''-c'', Command p, Path p]) \<noteq> 0 \<longrightarrow>
            main e c w =
              (Some (cliError (''exit status '' @
                 decimal (exit_code (sh e (cwd e) [''sh'', ''-c'', Command p, Path p])))),
               w1\<lparr>printed := printed w1 @
                    [(Magenta, ''==> Executing: sh -c '' @ Command p @ '' '' @ Path p @ nl)],
                  spawned := spawned w @ [(cwd e, [''sh'', ''-c'', Command p, Path p])]\<rparr>))"
    (is "\<forall>name w1. _ \<longrightarrow> ?P name w1")
proof (intro allI impI)
  fix name w1
  assume "c = Start name \<and>
         w1 = w\<lparr>printed := printed w @ [(Green, ''Starting '' @ name @ nl)]\<rparr>"
  then have c: "c = Start name"
    and w1: "w1 = w\<lparr>printed := printed w @ [(Green, ''Starting '' @ name @ nl)]\<rparr>"
    by simp_all
  from main_Start_causes [OF conjunct1 [OF assms] conjunct2 [OF assms] w1]
  show "?P name w1"
    unfolding c .
qed

lemma main_Stop_failures:
  assumes "open_result e = Opened \<and> \<not> table_err e"
  shows "\<forall>name w1. c = Stop name \<and>
         w1 = w\<lparr>printed := printed w @ [(Blue, ''Stopping: '' @ name @ nl)]\<rparr> \<longrightarrow>
         (\<forall>h. LoadProject e name (db w) = Inl h \<longrightarrow>
            main e c w = (Some (cliError ''Failed to load project.''), w1)) \<and>
         (\<forall>p. LoadProject e name (db w) = Inr p \<and>
            exit_code (sh e (cwd e) [''sh'', ''-c'', TearDown p, Path p]) \<noteq> 0 \<longrightarrow>
            main e c w =
              (Some (cliError (''exit status '' @
                 decimal (exit_code (sh e (cwd e) [''sh'', ''-c'', TearDown p, Path p])))),
               w1\<lparr>printed := printed w1 @
                    [(Magenta, ''==> Executing: sh -c '' @ TearDown p @ '' '' @ Path p @ nl)],
                  spawned := spawned w @ [(cwd e, [''sh'', ''-c'', TearDown p, Path p])]\<rparr>))"
    (is "\<forall>name w1. _ \<longrightarrow> ?P name w1")
proof (intro allI impI)
  fix name w1
  assume "c = Stop name \<and>
         w1 = w\<lparr>printed := printed w @ [(Blue, ''Stopping: '' @ name @ nl)]\<rparr>"
  then have c: "c = Stop name"
    and w1: "w1 = w\<lparr>printed := printed w @ [(Blue, ''Stopping: '' @ name @ nl)]\<rparr>"
    by simp_all
  from main_Stop_causes [OF conjunct1 [OF assms] conjunct2 [OF assms] w1]
  show "?P name w1"
    unfolding c .
qed

text \<open>
  C7, as the specification states it, fails for file I/O: \<^verbatim>\<open>CreateProjectFile\<close> and
  \<^verbatim>\<open>CommitChanges\<close> call \<^verbatim>\<open>panic(err)\<close>, so a sidecar file that cannot be written, that is
  not there to be read, or that the YAML package cannot read ends the process with the
  runtime's panic report and no coloured message.
\<close>

theorem file_failure_counterexample:
  "main calm (Init ''a'' ''/nowhere'' ''make'' [])
     ((blank [])\<lparr>disk := \<lparr>files = Map.empty,
        write_err = [''/nowhere/proj.yml'' \<mapsto>
          ''open /nowhere/proj.yml: no such file or directory'']\<rparr>\<rparr>) =
     (Some (GoPanic ''open /nowhere/proj.yml: no such file or directory''),
      (blank [])\<lparr>disk := \<lparr>files = Map.empty,
        write_err = [''/nowhere/proj.yml'' \<mapsto>
          ''open /nowhere/proj.yml: no such file or directory'']\<rparr>\<rparr>) \<and>
   main calm Commit (blank []) =
     (Some (GoPanic ''open ./proj.yml: no such file or directory''),
      (blank [])\<lparr>printed := [(Green, ''Updating...'' @ [CHR 0x0A])]\<rparr>) \<and>
   main calm Commit
     ((blank [])\<lparr>disk := \<lparr>files = [''./proj.yml'' \<mapsto> ''name: [''],
        write_err = Map.empty\<rparr>\<rparr>) =
     (Some (GoPanic ''yaml: unmarshal errors''),
      (blank [])\<lparr>disk := \<lparr>files = [''./proj.yml'' \<mapsto> ''name: [''],
                    write_err = Map.empty\<rparr>,
                 printed := [(Green, ''Updating...'' @ [CHR 0x0A])]\<rparr>) \<and>
   \<not> coloured_message (GoPanic ''open /nowhere/proj.yml: no such file or directory'') \<and>
   \<not> coloured_message (GoPanic ''open ./proj.yml: no such file or directory'') \<and>
   \<not> coloured_message (GoPanic ''yaml: unmarshal errors'')"
  by (simp add: main_def InitDB_def CreateTable_def InitProject_def CreateProjectFile_def
      WriteFile_def CommitChanges_def ReadFile_def nl_def calm_def blank_def)

text \<open>
  C7, amended. Every failure is terminal: the invocation ends with a non-zero exit
  status, the store as it was and at most one process spawned, and an invocation returns
  only when every step it made succeeded; nothing is retried or rolled back, and the
  file that \<^verbatim>\<open>init\<close> wrote stays when the insert fails. A failure to open the store or to
  create its table, to prepare or execute the update, to execute the insert, a missing
  record and a non-zero exit of the subprocess end in \<^verbatim>\<open>cliError\<close>: the red line
  \<^verbatim>\<open>==> Error: ...\<close> written through the \<^verbatim>\<open>color\<close> package, then exit status 1. A failure
  of file I/O or of the YAML package, in \<^verbatim>\<open>init\<close> and in \<^verbatim>\<open>commit\<close>, ends in a Go panic
  carrying the error: no coloured message, exit status 2. Each cause is stated with the
  halt and the state it leaves.
\<close>

theorem failures_are_terminal:
  "(\<forall>h w'. main e c w = (Some h, w') \<longrightarrow>
      exit_status h \<noteq> 0 \<and> db w' = db w \<and>
      length (spawned w') \<le> Suc (length (spawned w))) \<and>
   (\<forall>w'. main e c w = (None, w') \<longrightarrow>
      open_result e = Opened \<and> \<not> table_err e \<and>
      (case c of
         Init name path command teardown \<Rightarrow>
           \<not> prepare_err e \<and> \<not> exec_err e \<and>
           (\<exists>fs. CreateProjectFile e \<lparr>ID = ''123'', Name = name, Path = path,
              Command = command, TearDown = teardown\<rparr> (disk w) = Inr fs)
       | Commit \<Rightarrow>
           \<not> prepare_err e \<and> \<not> exec_err e \<and>
           (\<exists>data p. ReadFile ''./proj.yml'' (disk w) = Inr data \<and>
              yaml_Unmarshal e data = Inr p)
       | Start name \<Rightarrow>
           (\<exists>p. LoadProject e name (db w) = Inr p \<and>
              exit_code (sh e (cwd e) [''sh'', ''-c'', Command p, Path p]) = 0)
       | Stop name \<Rightarrow>
           (\<exists>p. LoadProject e name (db w) = Inr p \<and>
              exit_code (sh e (cwd e) [''sh'', ''-c'', TearDown p, Path p]) = 0))) \<and>
   (\<forall>msg. exit_status (cliError msg) = 1 \<and> coloured_message (cliError msg) \<and>
      last_line (cliError msg) = (Red, ''==> Error: '' @ msg @ nl)) \<and>
   (\<forall>v. exit_status (GoPanic v) = 2 \<and> \<not> coloured_message (GoPanic v)) \<and>
   (open_result e = OpenError \<longrightarrow>
      main e c w = (Some (cliError ''Could not create database.''), w)) \<and>
   (open_result e = OpenNil \<longrightarrow>
      main e c w = (Some (cliError ''DB Not found!''), w)) \<and>
   (open_result e = Opened \<and> table_err e \<longrightarrow>
      main e c w = (Some (cliError ''Failed to create database table.''), w)) \<and>
   (open_result e = Opened \<and> \<not> table_err e \<longrightarrow>
      (\<forall>name path command teardown project.
         c = Init name path command teardown \<and>
         project = \<lparr>ID = ''123'', Name = name, Path = path, Command = command,
                     TearDown = teardown\<rparr> \<longrightarrow>
         (\<forall>v. yaml_Marshal e project = Inl v \<longrightarrow> main e c w = (Some (GoPanic v), w)) \<and>
         (\<forall>data v. yaml_Marshal e project = Inr data \<and>
            WriteFile (path @ ''/proj.yml'') data (disk w) = Inl v \<longrightarrow>
            main e c w = (Some (GoPanic v), w)) \<and>
         (\<forall>fs. CreateProjectFile e project (disk w) = Inr fs \<and> \<not> prepare_err e \<and>
            exec_err e \<longrightarrow>
            main e c w = (Some (cliError ''Failed to save project.''), w\<lparr>disk := fs\<rparr>))) \<and>
      (\<forall>w1. c = Commit \<and>
         w1 = w\<lparr>printed := printed w @ [(Green, ''Updating...'' @ nl)]\<rparr> \<longrightarrow>
         (\<forall>v. ReadFile ''./proj.yml'' (disk w) = Inl v \<longrightarrow>
            main e c w = (Some (GoPanic v), w1)) \<and>
         (\<forall>data v. ReadFile ''./proj.yml'' (disk w) = Inr data \<and>
            yaml_Unmarshal e data = Inl v \<longrightarrow>
            main e c w = (Some (GoPanic v), w1)) \<and>
         (\<forall>data p. ReadFile ''./proj.yml'' (disk w) = Inr data \<and>
            yaml_Unmarshal e data = Inr p \<and> (prepare_err e \<or> exec_err e) \<longrightarrow>
            main e c w = (Some (cliError ''Failed to update project.''), w1))) \<and>
      (\<forall>name w1. c = Start name \<and>
         w1 = w\<lparr>printed := printed w @ [(Green, ''Starting '' @ name @ nl)]\<rparr> \<longrightarrow>
         (\<forall>h. LoadProject e name (db w) = Inl h \<longrightarrow>
            main e c w = (Some (cliError ''Failed to load project.''), w1)) \<and>
         (\<forall>p. LoadProject e name (db w) = Inr p \<and>
            exit_code (sh e (cwd e) [''sh'', ''-c'', Command p, Path p]) \<noteq> 0 \<longrightarrow>
            main e c w =
              (Some (cliError (''exit status '' @
                 decimal (exit_code (sh e (cwd e) [''sh'', ''-c'', Command p, Path p])))),
               w1\<lparr>printed := printed w1 @
                    [(Magenta, ''==> Executing: sh -c '' @ Command p @ '' '' @ Path p @ nl)],
                  spawned := spawned w @ [(cwd e, [''sh'', ''-c'', Command p, Path p])]\<rparr>))) \<and>
      (\<forall>name w1. c = Stop name \<and>
         w1 = w\<lparr>printed := printed w @ [(Blue, ''Stopping: '' @ name @ nl)]\<rparr> \<longrightarrow>
         (\<forall>h. LoadProject e name (db w) = Inl h \<longrightarrow>
            main e c w = (Some (cliError ''Failed to load project.''), w1)) \<and>
         (\<forall>p. LoadProject e name (db w) = Inr p \<and>
            exit_code (sh e (cwd e) [''sh'', ''-c'', TearDown p, Path p]) \<noteq> 0 \<longrightarrow>
            main e c w =
              (Some (cliError (''exit status '' @
                 decimal (exit_code (sh e (cwd e) [''sh'', ''-c'', TearDown p, Path p])))),
               w1\<lparr>printed := printed w1 @
                    [(Magenta, ''==> Executing: sh -c '' @ TearDown p @ '' '' @ Path p @ nl)],
                  spawned := spawned w @ [(cwd e, [''sh'', ''-c'', TearDown p, Path p])]\<rparr>))))"
  (is "?T \<and> ?N \<and> ?CE \<and> ?GP \<and> ?O1 \<and> ?O2 \<and> ?O3 \<and> (?open \<longrightarrow> ?I \<and> ?Cm \<and> ?St \<and> ?Sp)")
proof -
  have T: ?T
    by (intro allI impI) (rule main_terminal)
  have N: ?N
    by (intro allI impI) (rule main_None)
  have CE: ?CE
    by (simp add: cliError_def)
  have GP: ?GP
    by simp
  have O1: ?O1
    using main_closed [of e c w] by simp
  have O2: ?O2
    using main_closed [of e c w] by simp
  have O3: ?O3
    using main_closed [of e c w] by simp
  have OP: "?open \<longrightarrow> ?I \<and> ?Cm \<and> ?St \<and> ?Sp"
  proof (rule impI)
    assume op: ?open
    have i: ?I by (rule main_Init_failures [OF op])
    have cm: ?Cm by (rule main_Commit_failures [OF op])
    have st: ?St by (rule main_Start_failures [OF op])
    have sp: ?Sp by (rule main_Stop_failures [OF op])
    show "?I \<and> ?Cm \<and> ?St \<and> ?Sp"
      by (rule conjI [OF i conjI [OF cm conjI [OF st sp]]])
  qed
  show ?thesis
    by (rule conjI [OF T conjI [OF N conjI [OF CE conjI [OF GP conjI [OF O1
          conjI [OF O2 conjI [OF O3 OP]]]]]]])
qed

theorem failures_are_terminal_witness:
  "open_result calm = Opened \<and> \<not> table_err calm \<and>
   ReadFile ''./proj.yml'' (disk (blank [])) =
     Inl ''open ./proj.yml: no such file or directory'' \<and>
   main calm Commit (blank []) =
     (Some (GoPanic ''open ./proj.yml: no such file or directory''),
      (blank [])\<lparr>printed := printed (blank []) @ [(Green, ''Updating...'' @ nl)]\<rparr>) \<and>
   exit_status (GoPanic ''open ./proj.yml: no such file or directory'') \<noteq> 0"
proof -
  have op: "open_result calm = Opened \<and> \<not> table_err calm"
    by (simp add: calm_def)
  have rd: "ReadFile ''./proj.yml'' (disk (blank [])) =
      Inl ''open ./proj.yml: no such file or directory''"
    by (simp add: ReadFile_def blank_def)
  note all = failures_are_terminal [of calm Commit "blank []"]
  note opened = all [THEN conjunct2, THEN conjunct2, THEN conjunct2, THEN conjunct2,
      THEN conjunct2, THEN conjunct2, THEN conjunct2, THEN mp, OF op]
  note commit = opened [THEN conjunct2, THEN conjunct1, THEN spec, THEN mp,
      OF conjI [OF refl refl]]
  from commit [THEN conjunct1, THEN spec, THEN mp, OF rd]
  have run: "main calm Commit (blank []) =
     (Some (GoPanic ''open ./proj.yml: no such file or directory''),
      (blank [])\<lparr>printed := printed (blank []) @ [(Green, ''Updating...'' @ nl)]\<rparr>)" .
  from all [THEN conjunct1, THEN spec, THEN spec, THEN mp, OF run]
  have "exit_status (GoPanic ''open ./proj.yml: no such file or directory'') \<noteq> 0"
    by (rule conjunct1)
  with op rd run show ?thesis
    by simp
qed

subsection \<open>The working directory and the path\<close>

lemma sh_c_plain:
  "\<not> option_like c \<Longrightarrow> sh_c [''sh'', ''-c'', c, p] = Executes [] c p []"
  by (cases c) (auto simp: option_like_def is_flags_def)

text \<open>
  C9, as the specification states it, fails for a stored command that the shell reads as
  an option: with the command \<^verbatim>\<open>-e\<close>, \<^verbatim>\<open>start\<close> spawns \<^verbatim>\<open>sh -c -e /a\<close>, where the path is
  the command string and \<^verbatim>\<open>$0\<close> is \<^verbatim>\<open>sh\<close>.
\<close>

theorem path_dollar0_counterexample:
  "LoadProject calm ''a''
     [\<lparr>Id = ''123'', NameCol = ''a'', PathCol = ''/a'', CommandCol = ''-e'',
        TearDownCol = [], CreatedAt = 0\<rparr>] =
     Inr \<lparr>ID = ''123'', Name = ''a'', Path = ''/a'', Command = ''-e'', TearDown = []\<rparr> \<and>
   spawned (snd (StartProject calm ''a''
     (blank [\<lparr>Id = ''123'', NameCol = ''a'', PathCol = ''/a'', CommandCol = ''-e'',
        TearDownCol = [], CreatedAt = 0\<rparr>]))) =
     [(''/home/dev'', [''sh'', ''-c'', ''-e'', ''/a''])] \<and>
   sh_c [''sh'', ''-c'', ''-e'', ''/a''] = Executes [''-e''] ''/a'' ''sh'' [] \<and>
   dollar0 (sh_c [''sh'', ''-c'', ''-e'', ''/a'']) \<noteq> ''/a''"
  by (simp add: StartProject_def LoadProject_def find_stmt_def Run_def exec_Command_def
      printCommand_def calm_def blank_def is_flags_def option_like_def option_letters_def
      Let_def)

text \<open>
  C9, amended. For every stored project, \<^verbatim>\<open>start\<close> and \<^verbatim>\<open>stop\<close> spawn \<^verbatim>\<open>sh -c\<close> with the
  command and the path in the working directory of the invoking process, whatever the
  record's path, and their outcome is that of the process run there. The path is the
  argument after the command: when the command does not begin with \<^verbatim>\<open>-\<close> or \<^verbatim>\<open>+\<close>, the
  shell reads the command as its command string and the path as \<^verbatim>\<open>$0\<close>, and on a host
  whose \<^verbatim>\<open>sh\<close> acts on that reading the outcome is that of the command run with the path
  as \<^verbatim>\<open>$0\<close> in the invoking directory.
\<close>

theorem start_stop_working_directory:
  assumes "LoadProject e name (db w) = Inr p"
  shows "spawned (snd (StartProject e name w)) =
           spawned w @ [(cwd e, [''sh'', ''-c'', Command p, Path p])] \<and>
         spawned (snd (StopProject e name w)) =
           spawned w @ [(cwd e, [''sh'', ''-c'', TearDown p, Path p])] \<and>
         (fst (StartProject e name w) = None \<longleftrightarrow>
            exit_code (sh e (cwd e) [''sh'', ''-c'', Command p, Path p]) = 0) \<and>
         (fst (StopProject e name w) = None \<longleftrightarrow>
            exit_code (sh e (cwd e) [''sh'', ''-c'', TearDown p, Path p]) = 0) \<and>
         (\<not> option_like (Command p) \<longrightarrow>
            sh_c [''sh'', ''-c'', Command p, Path p] = Executes [] (Command p) (Path p) [] \<and>
            (\<forall>run. sh e = sh_host run \<longrightarrow>
               (fst (StartProject e name w) = None \<longleftrightarrow>
                  exit_code (run (cwd e) (Executes [] (Command p) (Path p) [])) = 0))) \<and>
         (\<not> option_like (TearDown p) \<longrightarrow>
            sh_c [''sh'', ''-c'', TearDown p, Path p] = Executes [] (TearDown p) (Path p) [] \<and>
            (\<forall>run. sh e = sh_host run \<longrightarrow>
               (fst (StopProject e name w) = None \<longleftrightarrow>
                  exit_code (run (cwd e) (Executes [] (TearDown p) (Path p) [])) = 0)))"
proof -
  have start: "spawned (snd (StartProject e name w)) =
           spawned w @ [(cwd e, [''sh'', ''-c'', Command p, Path p])]"
    and start_ok: "fst (StartProject e name w) = None \<longleftrightarrow>
            exit_code (sh e (cwd e) [''sh'', ''-c'', Command p, Path p]) = 0"
    by (simp_all add: StartProject_loaded [OF assms] Let_def)
  have stop: "spawned (snd (StopProject e name w)) =
           spawned w @ [(cwd e, [''sh'', ''-c'', TearDown p, Path p])]"
    and stop_ok: "fst (StopProject e name w) = None \<longleftrightarrow>
            exit_code (sh e (cwd e) [''sh'', ''-c'', TearDown p, Path p]) = 0"
    by (simp_all add: StopProject_loaded [OF assms] Let_def)
  have start_reads: "sh_c [''sh'', ''-c'', Command p, Path p] =
        Executes [] (Command p) (Path p) [] \<and>
      (\<forall>run. sh e = sh_host run \<longrightarrow>
         (fst (StartProject e name w) = None \<longleftrightarrow>
            exit_code (run (cwd e) (Executes [] (Command p) (Path p) [])) = 0))"
    if "\<not> option_like (Command p)"
    using sh_c_plain [OF that, of "Path p"] start_ok by (simp add: sh_host_def)
  have stop_reads: "sh_c [''sh'', ''-c'', TearDown p, Path p] =
        Executes [] (TearDown p) (Path p) [] \<and>
      (\<forall>run. sh e = sh_host run \<longrightarrow>
         (fst (StopProject e name w) = None \<longleftrightarrow>
            exit_code (run (cwd e) (Executes [] (TearDown p) (Path p) [])) = 0))"
    if "\<not> option_like (TearDown p)"
    using sh_c_plain [OF that, of "Path p"] stop_ok by (simp add: sh_host_def)
  from start stop start_ok stop_ok start_reads stop_reads show ?thesis
    by blast
qed

theorem start_stop_working_directory_witness:
  "LoadProject (calm\<lparr>sh := sh_host (\<lambda>d r. \<lparr>exit_code = (case r of Executes fl cs a0 ps \<Rightarrow> (if a0 = ''/a'' then 0 else 1) | Usage \<Rightarrow> 2 | Depends argv \<Rightarrow> 2),
        stdout = d, stderr = []\<rparr>)\<rparr>) ''a''
     (db (blank [\<lparr>Id = ''123'', NameCol = ''a'', PathCol = ''/a'', CommandCol = ''make'',
        TearDownCol = ''make clean'', CreatedAt = 0\<rparr>])) =
     Inr \<lparr>ID = ''123'', Name = ''a'', Path = ''/a'', Command = ''make'',
          TearDown = ''make clean''\<rparr> \<and>
   \<not> option_like ''make'' \<and> \<not> option_like ''make clean'' \<and>
   cwd calm = ''/home/dev'' \<and>
   StartProject (calm\<lparr>sh := sh_host (\<lambda>d r. \<lparr>exit_code = (case r of Executes fl cs a0 ps \<Rightarrow> (if a0 = ''/a'' then 0 else 1) | Usage \<Rightarrow> 2 | Depends argv \<Rightarrow> 2),
        stdout = d, stderr = []\<rparr>)\<rparr>) ''a''
     (blank [\<lparr>Id = ''123'', NameCol = ''a'', PathCol = ''/a'', CommandCol = ''make'',
        TearDownCol = ''make clean'', CreatedAt = 0\<rparr>]) =
     (None,
      (blank [\<lparr>Id = ''123'', NameCol = ''a'', PathCol = ''/a'', CommandCol = ''make'',
        TearDownCol = ''make clean'', CreatedAt = 0\<rparr>])
      \<lparr>printed := [(Magenta, ''==> Executing: sh -c make /a'' @ [CHR 0x0A]),
                    (Blue, ''==> Output: /home/dev'' @ [CHR 0x0A])],
        spawned := [(''/home/dev'', [''sh'', ''-c'', ''make'', ''/a''])]\<rparr>) \<and>
   spawned (snd (StopProject (calm\<lparr>sh := sh_host (\<lambda>d r.
        \<lparr>exit_code = (case r of Executes fl cs a0 ps \<Rightarrow> (if a0 = ''/a'' then 0 else 1) | Usage \<Rightarrow> 2 | Depends argv \<Rightarrow> 2), stdout = d, stderr = []\<rparr>)\<rparr>) ''a''
     (blank [\<lparr>Id = ''123'', NameCol = ''a'', PathCol = ''/a'', CommandCol = ''make'',
        TearDownCol = ''make clean'', CreatedAt = 0\<rparr>]))) =
     [(''/home/dev'', [''sh'', ''-c'', ''make clean'', ''/a''])]"
proof -
  let ?e = "calm\<lparr>sh := sh_host (\<lambda>d r. \<lparr>exit_code = (case r of Executes fl cs a0 ps \<Rightarrow> (if a0 = ''/a'' then 0 else 1) | Usage \<Rightarrow> 2 | Depends argv \<Rightarrow> 2),
        stdout = d, stderr = []\<rparr>)\<rparr>"
  have load: "LoadProject ?e ''a''
     (db (blank [\<lparr>Id = ''123'', NameCol = ''a'', PathCol = ''/a'', CommandCol = ''make'',
        TearDownCol = ''make clean'', CreatedAt = 0\<rparr>])) =
     Inr \<lparr>ID = ''123'', Name = ''a'', Path = ''/a'', Command = ''make'',
          TearDown = ''make clean''\<rparr>"
    by (simp add: LoadProject_def find_stmt_def calm_def blank_def)
  have plain: "\<not> option_like ''make''" "\<not> option_like ''make clean''"
    by (simp_all add: option_like_def)
  have here: "cwd calm = ''/home/dev''"
    by (simp add: calm_def)
  have run: "StartProject ?e ''a''
     (blank [\<lparr>Id = ''123'', NameCol = ''a'', PathCol = ''/a'', CommandCol = ''make'',
        TearDownCol = ''make clean'', CreatedAt = 0\<rparr>]) =
     (None,
      (blank [\<lparr>Id = ''123'', NameCol = ''a'', PathCol = ''/a'', CommandCol = ''make'',
        TearDownCol = ''make clean'', CreatedAt = 0\<rparr>])
      \<lparr>printed := [(Magenta, ''==> Executing: sh -c make /a'' @ [CHR 0x0A]),
                    (Blue, ''==> Output: /home/dev'' @ [CHR 0x0A])],
        spawned := [(''/home/dev'', [''sh'', ''-c'', ''make'', ''/a''])]\<rparr>)"
    by (simp add: StartProject_def LoadProject_def find_stmt_def Run_def exec_Command_def
        printCommand_def printOutput_def nl_def sh_host_def is_flags_def option_like_def
        calm_def blank_def Let_def)
  from start_stop_working_directory [OF load] load plain here run show ?thesis
    by (simp add: blank_def calm_def)
qed

end
